theory Spec2Isabelle
  imports Complex_Main "HOL-Library.Multiset" "HOL-Library.Char_ord"
    "HOL-Library.List_Lexorder" "HOL-Library.Product_Lexorder"
begin

section \<open>Python values reaching the validators\<close>

text \<open>
  The validators are annotated with \<open>str\<close> but are duck-typed: the CSV loader hands them
  cells of a DataFrame row (a string, an integer of a numeric column, or NaN for a missing
  cell) and the XML loader hands them the text of an element (a string or \<open>None\<close>).
  A cell is one of these four shapes; \<open>py_truthy\<close> is Python's truth value of it
  (\<open>not mobile\<close>) and \<open>py_str\<close> is \<open>str(mobile)\<close>. Strings are byte lists; the character
  classes below are the ASCII part of Python's \<open>\d\<close> and of \<open>str.strip()\<close>'s whitespace.
  Floating-point cells are not modelled.
\<close>

datatype cell = CStr string | CInt int | CNaN | CNone

definition digit_chars :: "char list" where
  "digit_chars = ''0123456789''"

definition is_digit :: "char \<Rightarrow> bool" where
  "is_digit c = (c \<in> set digit_chars)"

definition is_space :: "char \<Rightarrow> bool" where
  "is_space c = (c \<in> set [CHR 0x09, CHR 0x0A, CHR 0x0B, CHR 0x0C, CHR 0x0D,
                             CHR 0x1C, CHR 0x1D, CHR 0x1E, CHR 0x1F, CHR '' ''])"

definition py_strip :: "string \<Rightarrow> string" where
  "py_strip s = rev (dropWhile is_space (rev (dropWhile is_space s)))"

fun digits_of_nat :: "nat \<Rightarrow> string" where
  "digits_of_nat n =
     (if n < 10 then [digit_chars ! n]
      else digits_of_nat (n div 10) @ [digit_chars ! (n mod 10)])"

definition string_of_int :: "int \<Rightarrow> string" where
  "string_of_int i = (if i < 0 then CHR ''-'' # digits_of_nat (nat (- i)) else digits_of_nat (nat i))"

fun py_truthy :: "cell \<Rightarrow> bool" where
  "py_truthy (CStr s) = (s \<noteq> [])"
| "py_truthy (CInt i) = (i \<noteq> 0)"
| "py_truthy CNaN = True"
| "py_truthy CNone = False"

fun py_str :: "cell \<Rightarrow> string" where
  "py_str (CStr s) = s"
| "py_str (CInt i) = string_of_int i"
| "py_str CNaN = ''nan''"
| "py_str CNone = ''None''"

section \<open>validators.py\<close>

text \<open>\<open>re.sub(r'[^\d+]', '', s)\<close> and \<open>re.sub(r'[^\d]', '', s)\<close>.\<close>

definition keep_digit_plus :: "char \<Rightarrow> bool" where
  "keep_digit_plus c = (is_digit c \<or> c = CHR ''+'')"

definition sub_non_digit_plus :: "string \<Rightarrow> string" where
  "sub_non_digit_plus s = filter keep_digit_plus s"

definition sub_non_digit :: "string \<Rightarrow> string" where
  "sub_non_digit s = filter is_digit s"

definition validate_mobile_number :: "cell \<Rightarrow> bool" where
  "validate_mobile_number mobile =
     (if \<not> py_truthy mobile then False
      else let cleaned = sub_non_digit (py_strip (py_str mobile))
           in 8 \<le> length cleaned \<and> length cleaned \<le> 15)"

definition normalize_mobile_number :: "cell \<Rightarrow> string option" where
  "normalize_mobile_number mobile =
     (if \<not> py_truthy mobile then None
      else let cleaned = sub_non_digit_plus (py_strip (py_str mobile))
           in if cleaned = [] then None
              else let digit_count = length (sub_non_digit cleaned)
                   in if digit_count < 8 then None else Some cleaned)"

definition validate_string :: "cell \<Rightarrow> nat \<Rightarrow> nat \<Rightarrow> bool" where
  "validate_string v min_length max_length =
     (if \<not> py_truthy v then False
      else let str_value = py_strip (py_str v)
           in min_length \<le> length str_value \<and> length str_value \<le> max_length)"

text \<open>
  The reading of the specification's sentence on \<open>normalize_mobile_number\<close>: only digits
  and a \<^emph>\<open>leading\<close> plus sign survive.
\<close>

definition spec_normalize_mobile_number :: "string \<Rightarrow> string option" where
  "spec_normalize_mobile_number raw =
     (let t = py_strip raw;
          cleaned = (case t of [] \<Rightarrow> []
                     | c # cs \<Rightarrow> if c = CHR ''+'' then c # sub_non_digit cs else sub_non_digit t)
      in if length (sub_non_digit cleaned) < 8 then None else Some cleaned)"

subsection \<open>The standard library's \<open>datetime.strptime\<close>\<close>

text \<open>
  \<open>validate_datetime\<close> calls \<open>datetime.strptime\<close> of the Python standard library, which
  is not code of the repository. It is modelled here for the six directives the default
  formats use, the way CPython's \<open>_strptime\<close> works: the format becomes a regular expression
  (one alternation per directive, a run of whitespace in the format becomes \<open>\s+\<close>, the
  match ignores case), the expression is matched at the start of the string with
  backtracking, the first match in priority order is taken, text left over after it is an
  error, and the date and time fields must form an existing date. Every failure is the
  \<open>ValueError\<close> that \<open>validate_datetime\<close> catches, here \<open>None\<close>.
\<close>

record datetime =
  dt_year :: nat
  dt_month :: nat
  dt_day :: nat
  dt_hour :: nat
  dt_minute :: nat
  dt_second :: nat

datatype directive = DirY | Dirm | Dird | DirH | DirM | DirS

datatype fmt_item = Dir directive | Lit char | WS

type_synonym fmt = "fmt_item list"

text \<open>An alternative of a directive is a sequence of character classes, each a string.\<close>

fun directive_alts :: "directive \<Rightarrow> string list list" where
  "directive_alts DirY = [[digit_chars, digit_chars, digit_chars, digit_chars]]"
| "directive_alts Dirm = [[''1'', ''012''], [''0'', ''123456789''], [''123456789'']]"
| "directive_alts Dird = [[''3'', ''01''], [''12'', digit_chars], [''0'', ''123456789''],
                          [''123456789''], ['' '', ''123456789'']]"
| "directive_alts DirH = [[''2'', ''0123''], [''01'', digit_chars], [digit_chars]]"
| "directive_alts DirM = [[''012345'', digit_chars], [digit_chars]]"
| "directive_alts DirS = [[''6'', ''01''], [''012345'', digit_chars], [digit_chars]]"

fun match_alt :: "string list \<Rightarrow> string \<Rightarrow> (string \<times> string) option" where
  "match_alt [] s = Some ([], s)"
| "match_alt (cls # clss) [] = None"
| "match_alt (cls # clss) (c # s) =
     (if c \<in> set cls
      then (case match_alt clss s of None \<Rightarrow> None | Some (m, r) \<Rightarrow> Some (c # m, r))
      else None)"

definition ascii_lower :: "char \<Rightarrow> char" where
  "ascii_lower c = (if c \<in> set ''ABCDEFGHIJKLMNOPQRSTUVWXYZ''
                    then char_of (of_char c + (32::nat)) else c)"

definition ci_eq :: "char \<Rightarrow> char \<Rightarrow> bool" where
  "ci_eq c x = (ascii_lower c = ascii_lower x)"

text \<open>The greedy \<open>\s+\<close>: the remainders after a non-empty run of whitespace, longest run first.\<close>

definition ws_alts :: "string \<Rightarrow> string list" where
  "ws_alts s = map (\<lambda>k. drop k s) (rev [1 ..< Suc (length (takeWhile is_space s))])"

fun match_items :: "fmt \<Rightarrow> string \<Rightarrow> ((directive \<times> string) list \<times> string) list" where
  "match_items [] s = [([], s)]"
| "match_items (Lit c # fs) s =
     (case s of [] \<Rightarrow> [] | x # xs \<Rightarrow> if ci_eq c x then match_items fs xs else [])"
| "match_items (WS # fs) s = concat (map (\<lambda>r. match_items fs r) (ws_alts s))"
| "match_items (Dir d # fs) s =
     concat (map (\<lambda>alt. case match_alt alt s of
                            None \<Rightarrow> []
                          | Some (m, r) \<Rightarrow> map (\<lambda>(env, rest). ((d, m) # env, rest)) (match_items fs r))
                 (directive_alts d))"

definition re_match :: "fmt \<Rightarrow> string \<Rightarrow> ((directive \<times> string) list \<times> string) option" where
  "re_match f s = (case match_items f s of [] \<Rightarrow> None | x # _ \<Rightarrow> Some x)"

definition digit_val :: "char \<Rightarrow> nat" where
  "digit_val c = of_char c - 48"

definition nat_of_digits :: "string \<Rightarrow> nat" where
  "nat_of_digits s = foldl (\<lambda>n c. 10 * n + digit_val c) 0 (filter is_digit s)"

definition field :: "directive \<Rightarrow> (directive \<times> string) list \<Rightarrow> nat \<Rightarrow> nat" where
  "field d env dflt = (case map_of env d of None \<Rightarrow> dflt | Some m \<Rightarrow> nat_of_digits m)"

definition is_leap :: "nat \<Rightarrow> bool" where
  "is_leap y = (y mod 4 = 0 \<and> (y mod 100 \<noteq> 0 \<or> y mod 400 = 0))"

definition days_in_month :: "nat \<Rightarrow> nat \<Rightarrow> nat" where
  "days_in_month y m =
     (if m = 2 then (if is_leap y then 29 else 28)
      else if m \<in> set [4, 6, 9, 11] then 30 else 31)"

definition valid_datetime :: "datetime \<Rightarrow> bool" where
  "valid_datetime d =
     (1 \<le> dt_year d \<and> dt_year d \<le> 9999 \<and> 1 \<le> dt_month d \<and> dt_month d \<le> 12
      \<and> 1 \<le> dt_day d \<and> dt_day d \<le> days_in_month (dt_year d) (dt_month d)
      \<and> dt_hour d \<le> 23 \<and> dt_minute d \<le> 59 \<and> dt_second d \<le> 59)"

definition strptime :: "string \<Rightarrow> fmt \<Rightarrow> datetime option" where
  "strptime s f =
     (case re_match f s of
        None \<Rightarrow> None
      | Some (env, rest) \<Rightarrow>
          if rest \<noteq> [] then None
          else let d = \<lparr>dt_year = field DirY env 1900, dt_month = field Dirm env 1,
                         dt_day = field Dird env 1, dt_hour = field DirH env 0,
                         dt_minute = field DirM env 0, dt_second = field DirS env 0\<rparr>
               in if valid_datetime d then Some d else None)"

subsection \<open>\<open>validate_datetime\<close>\<close>

definition fmt_iso :: fmt where
  "fmt_iso = [Dir DirY, Lit CHR ''-'', Dir Dirm, Lit CHR ''-'', Dir Dird, Lit CHR ''T'',
              Dir DirH, Lit CHR '':'', Dir DirM, Lit CHR '':'', Dir DirS]"

definition fmt_ymd_hms :: fmt where
  "fmt_ymd_hms = [Dir DirY, Lit CHR ''-'', Dir Dirm, Lit CHR ''-'', Dir Dird, WS,
                  Dir DirH, Lit CHR '':'', Dir DirM, Lit CHR '':'', Dir DirS]"

definition fmt_ymd :: fmt where
  "fmt_ymd = [Dir DirY, Lit CHR ''-'', Dir Dirm, Lit CHR ''-'', Dir Dird]"

definition fmt_dmy_dash :: fmt where
  "fmt_dmy_dash = [Dir Dird, Lit CHR ''-'', Dir Dirm, Lit CHR ''-'', Dir DirY]"

definition fmt_dmy_slash :: fmt where
  "fmt_dmy_slash = [Dir Dird, Lit CHR ''/'', Dir Dirm, Lit CHR ''/'', Dir DirY]"

definition default_formats :: "fmt list" where
  "default_formats = [fmt_iso, fmt_ymd_hms, fmt_ymd, fmt_dmy_dash, fmt_dmy_slash]"

text \<open>The \<open>for fmt in formats\<close> loop: the first format that parses returns.\<close>

fun try_formats :: "fmt list \<Rightarrow> string \<Rightarrow> datetime option" where
  "try_formats [] s = None"
| "try_formats (f # fs) s =
     (case strptime s f of Some d \<Rightarrow> Some d | None \<Rightarrow> try_formats fs s)"

definition validate_datetime :: "cell \<Rightarrow> fmt option \<Rightarrow> datetime option" where
  "validate_datetime dt_string format =
     (if \<not> py_truthy dt_string then None
      else let formats = (case format of
                            None \<Rightarrow> default_formats
                          | Some f \<Rightarrow> if f \<noteq> [] then [f] else default_formats)
           in try_formats formats (py_strip (py_str dt_string)))"


definition date_only :: "nat \<Rightarrow> nat \<Rightarrow> nat \<Rightarrow> datetime" where
  "date_only y m d =
     \<lparr>dt_year = y, dt_month = m, dt_day = d, dt_hour = 0, dt_minute = 0, dt_second = 0\<rparr>"

section \<open>The relational store (db\_manager.py)\<close>

text \<open>
  The store holds the two tables. Every statement the code sends through
  \<open>db_manager.execute_query\<close> or \<open>execute_many\<close> is one \<open>db_op\<close>; it is recorded in
  \<open>db_log\<close>, and it raises when \<open>db_fault\<close> names an error for it (a failing connection
  or statement), in which case the transaction is rolled back and the tables are unchanged.
  Columns are not nullable, key equality is string equality, amounts are exact rationals,
  and the store-managed timestamp columns are left out: the schema is not part of the
  sources.
\<close>

record customer_row =
  c_id :: string
  c_name :: string
  c_mobile :: string
  c_region :: string

record order_row =
  o_id :: string
  o_mobile :: string
  o_date :: datetime
  o_sku_id :: string
  o_sku_count :: int
  o_amount :: rat

datatype db_op =
  DeleteCustomers | DeleteOrders | UpsertCustomers | UpsertOrders
  | SelectCustomers | SelectOrders
  | QueryRepeat | QueryMonthly | QueryRegional | QueryTop

record store =
  customers :: "customer_row list"
  orders :: "order_row list"
  db_fault :: "db_op \<Rightarrow> string option"
  db_log :: "db_op list"

definition run_op :: "store \<Rightarrow> db_op \<Rightarrow> string option \<times> store" where
  "run_op st opn = (db_fault st opn, st\<lparr>db_log := db_log st @ [opn]\<rparr>)"

text \<open>\<open>INSERT ... ON DUPLICATE KEY UPDATE\<close>, one row: the listed columns are overwritten.\<close>

definition upsert_customer :: "customer_row list \<Rightarrow> customer_row \<Rightarrow> customer_row list" where
  "upsert_customer tbl r =
     (if c_id r \<in> set (map c_id tbl)
      then map (\<lambda>x. if c_id x = c_id r then x\<lparr>c_name := c_name r, c_region := c_region r\<rparr> else x) tbl
      else tbl @ [r])"

definition upsert_order :: "order_row list \<Rightarrow> order_row \<Rightarrow> order_row list" where
  "upsert_order tbl r =
     (if o_id r \<in> set (map o_id tbl)
      then map (\<lambda>x. if o_id x = o_id r
                      then x\<lparr>o_sku_count := o_sku_count r, o_amount := o_amount r\<rparr> else x) tbl
      else tbl @ [r])"

section \<open>Ingestion of customers (csv\_loader.py)\<close>

text \<open>
  What \<open>load_csv\<close> returns: \<open>None\<close> for a missing or unreadable file, else a DataFrame with
  its column names and, for the four required columns, the cells of every row.
  Wall-clock \<open>duration\<close> is left out of the pipeline result.
\<close>

record csv_row =
  r_customer_id :: cell
  r_customer_name :: cell
  r_mobile_number :: cell
  r_region :: cell

record csv_df =
  df_columns :: "string list"
  df_rows :: "csv_row list"

record pipeline_result =
  success :: bool
  records_loaded :: nat
  errors :: "string list"

definition required_columns :: "string list" where
  "required_columns = [''customer_id'', ''customer_name'', ''mobile_number'', ''region'']"

fun join_sep :: "string \<Rightarrow> string list \<Rightarrow> string" where
  "join_sep sep [] = []"
| "join_sep sep [x] = x"
| "join_sep sep (x # y # ys) = x @ sep @ join_sep sep (y # ys)"

definition py_repr_str :: "string \<Rightarrow> string" where
  "py_repr_str s = [CHR 0x27] @ s @ [CHR 0x27]"

definition py_repr_list :: "string list \<Rightarrow> string" where
  "py_repr_list xs = ''['' @ join_sep '', '' (map py_repr_str xs) @ '']''"

definition py_repr_set :: "string list \<Rightarrow> string" where
  "py_repr_set xs = ''{'' @ join_sep '', '' (map py_repr_str xs) @ ''}''"

definition csv_row_errors :: "csv_row \<Rightarrow> string list" where
  "csv_row_errors row =
     (let customer_id = py_strip (py_str (r_customer_id row))
      in (if customer_id = [] \<or> length customer_id > 25
          then [''Invalid customer_id: '' @ customer_id @ '' (must be 1-25 characters)'']
          else [])
       @ (if \<not> validate_string (r_customer_name row) 2 255
          then [''Invalid customer_name: '' @ py_str (r_customer_name row)] else [])
       @ (if normalize_mobile_number (r_mobile_number row) = None
          then [''Invalid mobile_number: '' @ py_str (r_mobile_number row)
                @ '' (must be 8-15 digits)'']
          else [])
       @ (if \<not> validate_string (r_region row) 2 255
          then [''Invalid region: '' @ py_str (r_region row)] else []))"

text \<open>The \<open>for idx, row in df.iterrows()\<close> loop, \<open>idx\<close> counting from the given start.\<close>

fun validate_rows :: "nat \<Rightarrow> csv_row list \<Rightarrow> string list" where
  "validate_rows idx [] = []"
| "validate_rows idx (row # rows) =
     (let row_errors = csv_row_errors row
      in (if row_errors \<noteq> []
          then [''Row '' @ string_of_int (int (idx + 2)) @ '': '' @ join_sep '', '' row_errors]
          else [])
         @ validate_rows (Suc idx) rows)"

definition validate_dataframe :: "csv_df \<Rightarrow> bool \<times> string list" where
  "validate_dataframe df =
     (let missing_cols = filter (\<lambda>c. c \<notin> set (df_columns df)) required_columns
      in if missing_cols \<noteq> []
         then (False, [''Missing required columns: '' @ py_repr_set missing_cols])
         else if df_rows df = [] then (False, [''CSV file is empty''])
         else let errors = validate_rows 0 (df_rows df) in (errors = [], errors))"

text \<open>
  The frame between the steps of \<open>clean_dataframe\<close>: \<open>customer_id\<close> is a string after
  \<open>astype(str)\<close> (a missing cell becomes the text \<open>nan\<close>), the mobile number is the
  normaliser's result, the other two columns keep their cells.
\<close>

record clean_customer =
  cc_id :: string
  cc_name :: cell
  cc_mobile :: "string option"
  cc_region :: cell

fun str_strip_cell :: "cell \<Rightarrow> cell" where
  "str_strip_cell (CStr s) = CStr (py_strip s)"
| "str_strip_cell c = c"

fun is_null :: "cell \<Rightarrow> bool" where
  "is_null CNaN = True"
| "is_null CNone = True"
| "is_null _ = False"

definition normalize_row :: "csv_row \<Rightarrow> clean_customer" where
  "normalize_row row =
     \<lparr>cc_id = py_strip (py_str (str_strip_cell (r_customer_id row))),
      cc_name = str_strip_cell (r_customer_name row),
      cc_mobile = normalize_mobile_number (str_strip_cell (r_mobile_number row)),
      cc_region = str_strip_cell (r_region row)\<rparr>"

text \<open>\<open>drop_duplicates(subset=[key], keep='first')\<close>.\<close>

fun drop_duplicates :: "('a \<Rightarrow> 'k) \<Rightarrow> 'a list \<Rightarrow> 'a list" where
  "drop_duplicates key [] = []"
| "drop_duplicates key (x # xs) = x # drop_duplicates key (filter (\<lambda>y. key y \<noteq> key x) xs)"

text \<open>
  \<open>dropna(subset=required_columns)\<close>; the rows that remain hold no null, and are written
  as rows of the store (a numeric cell as its decimal text).
\<close>

definition complete_row :: "clean_customer \<Rightarrow> customer_row option" where
  "complete_row r =
     (case cc_mobile r of
        None \<Rightarrow> None
      | Some m \<Rightarrow> if is_null (cc_name r) \<or> is_null (cc_region r) then None
                  else Some \<lparr>c_id = cc_id r, c_name = py_str (cc_name r), c_mobile = m,
                             c_region = py_str (cc_region r)\<rparr>)"

definition dropna :: "clean_customer list \<Rightarrow> customer_row list" where
  "dropna rows = List.map_filter complete_row rows"

definition clean_dataframe :: "csv_df \<Rightarrow> customer_row list" where
  "clean_dataframe df = dropna (drop_duplicates cc_id (map normalize_row (df_rows df)))"

definition load_customers_to_database :: "store \<Rightarrow> customer_row list \<Rightarrow> string \<Rightarrow> bool \<times> store" where
  "load_customers_to_database st df mode =
     (let (failed, st1) =
            (if mode = ''replace''
             then (case run_op st DeleteCustomers of
                     (Some e, s) \<Rightarrow> (True, s)
                   | (None, s) \<Rightarrow> (False, s\<lparr>customers := []\<rparr>))
             else (False, st))
      in if failed then (False, st1)
         else (case run_op st1 UpsertCustomers of
                 (Some e, s) \<Rightarrow> (False, s)
               | (None, s) \<Rightarrow> (True, s\<lparr>customers := foldl upsert_customer (customers s) df\<rparr>)))"

definition process_csv :: "store \<Rightarrow> csv_df option \<Rightarrow> string \<Rightarrow> pipeline_result \<times> store" where
  "process_csv st file mode =
     (case file of
        None \<Rightarrow> (\<lparr>success = False, records_loaded = 0, errors = [''Failed to load CSV file'']\<rparr>, st)
      | Some df \<Rightarrow>
          (case validate_dataframe df of
             (False, validation_errors) \<Rightarrow>
               (\<lparr>success = False, records_loaded = 0, errors = validation_errors\<rparr>, st)
           | (True, _) \<Rightarrow>
               (let df_clean = clean_dataframe df
                in case load_customers_to_database st df_clean mode of
                     (True, st') \<Rightarrow>
                       (\<lparr>success = True, records_loaded = length df_clean, errors = []\<rparr>, st')
                   | (False, st') \<Rightarrow>
                       (\<lparr>success = False, records_loaded = 0,
                         errors = [''Failed to load data to database'']\<rparr>, st'))))"

section \<open>Ingestion of orders (xml\_loader.py)\<close>

text \<open>
  An order as \<open>load_xml\<close> builds it: for each required field the text of the element,
  or \<open>None\<close> when the element is missing. The built-ins \<open>float()\<close> and \<open>int()\<close> on a string
  belong to Python, not to the repository; they are parameters of the model
  (\<open>None\<close> is their \<open>ValueError\<close>), with floats taken as exact finite numbers.
\<close>

record xml_order =
  x_order_id :: cell
  x_mobile_number :: cell
  x_order_date_time :: cell
  x_sku_id :: cell
  x_sku_count :: cell
  x_total_amount :: cell

record pylib =
  float_of :: "string \<Rightarrow> rat option"
  int_of :: "string \<Rightarrow> int option"

definition required_fields :: "string list" where
  "required_fields = [''order_id'', ''mobile_number'', ''order_date_time'',
                      ''sku_id'', ''sku_count'', ''total_amount'']"

definition order_fields :: "xml_order \<Rightarrow> (string \<times> cell) list" where
  "order_fields order =
     [(''order_id'', x_order_id order), (''mobile_number'', x_mobile_number order),
      (''order_date_time'', x_order_date_time order), (''sku_id'', x_sku_id order),
      (''sku_count'', x_sku_count order), (''total_amount'', x_total_amount order)]"

text \<open>\<open>float(value)\<close> of a cell: a \<open>TypeError\<close> on \<open>None\<close>, caught like the \<open>ValueError\<close>.\<close>

fun py_float :: "pylib \<Rightarrow> cell \<Rightarrow> rat option" where
  "py_float lib (CStr s) = float_of lib s"
| "py_float lib (CInt i) = Some (of_int i)"
| "py_float lib CNaN = None"
| "py_float lib CNone = None"

fun py_int :: "pylib \<Rightarrow> cell \<Rightarrow> int option" where
  "py_int lib (CStr s) = int_of lib s"
| "py_int lib (CInt i) = Some i"
| "py_int lib CNaN = None"
| "py_int lib CNone = None"

definition validate_positive_number :: "pylib \<Rightarrow> cell \<Rightarrow> bool" where
  "validate_positive_number lib v = (case py_float lib v of None \<Rightarrow> False | Some x \<Rightarrow> x > 0)"

definition validate_non_negative_number :: "pylib \<Rightarrow> cell \<Rightarrow> bool" where
  "validate_non_negative_number lib v = (case py_float lib v of None \<Rightarrow> False | Some x \<Rightarrow> x \<ge> 0)"

definition xml_row_errors :: "pylib \<Rightarrow> xml_order \<Rightarrow> string list" where
  "xml_row_errors lib order =
     (let missing_fields = map fst (filter (\<lambda>(f, v). \<not> py_truthy v) (order_fields order))
      in if missing_fields \<noteq> [] then [''Missing fields: '' @ py_repr_list missing_fields]
         else
           (let order_id = py_strip (py_str (x_order_id order))
            in (if order_id = [] \<or> length order_id > 25
                then [''Invalid order_id: '' @ order_id @ '' (must be 1-25 characters)'']
                else [])
             @ (if normalize_mobile_number (x_mobile_number order) = None
                then [''Invalid mobile_number: '' @ py_str (x_mobile_number order)
                      @ '' (must be 8-15 digits)'']
                else [])
             @ (if validate_datetime (x_order_date_time order) None = None
                then [''Invalid order_date_time: '' @ py_str (x_order_date_time order)] else [])
             @ (if \<not> validate_string (x_sku_id order) 1 255
                then [''Invalid sku_id: '' @ py_str (x_sku_id order)] else [])
             @ (if \<not> validate_positive_number lib (x_sku_count order)
                then [''Invalid sku_count: '' @ py_str (x_sku_count order)] else [])
             @ (if \<not> validate_non_negative_number lib (x_total_amount order)
                then [''Invalid total_amount: '' @ py_str (x_total_amount order)] else [])))"

text \<open>The \<open>for idx, order in enumerate(orders)\<close> loop.\<close>

fun validate_order_rows :: "pylib \<Rightarrow> nat \<Rightarrow> xml_order list \<Rightarrow> string list" where
  "validate_order_rows lib idx [] = []"
| "validate_order_rows lib idx (order # rest) =
     (let row_errors = xml_row_errors lib order
      in (if row_errors \<noteq> []
          then [''Order '' @ string_of_int (int (idx + 1)) @ '': '' @ join_sep '', '' row_errors]
          else [])
         @ validate_order_rows lib (Suc idx) rest)"

definition validate_orders :: "pylib \<Rightarrow> xml_order list \<Rightarrow> bool \<times> string list" where
  "validate_orders lib orders_in =
     (if orders_in = [] then (False, [''No orders found in XML file''])
      else let errors = validate_order_rows lib 0 orders_in in (errors = [], errors))"

text \<open>
  One pass of the first loop of \<open>clean_orders\<close>: the cleaned order, or \<open>None\<close> when a
  field is \<open>None\<close> or building it raises (\<open>.strip()\<close> on \<open>None\<close>, \<open>int()\<close>, \<open>float()\<close>).
\<close>

definition clean_order :: "pylib \<Rightarrow> xml_order \<Rightarrow> order_row option" where
  "clean_order lib order =
     (case x_sku_id order of
        CStr sku \<Rightarrow>
          (case py_int lib (x_sku_count order) of
             None \<Rightarrow> None
           | Some cnt \<Rightarrow>
               (case py_float lib (x_total_amount order) of
                  None \<Rightarrow> None
                | Some amt \<Rightarrow>
                    (case normalize_mobile_number (x_mobile_number order) of
                       None \<Rightarrow> None
                     | Some mob \<Rightarrow>
                         (case validate_datetime (x_order_date_time order) None of
                            None \<Rightarrow> None
                          | Some d \<Rightarrow>
                              Some \<lparr>o_id = py_strip (py_str (x_order_id order)), o_mobile = mob,
                                    o_date = d, o_sku_id = py_strip sku, o_sku_count = cnt,
                                    o_amount = amt\<rparr>))))
      | _ \<Rightarrow> None)"

text \<open>The second loop of \<open>clean_orders\<close>, with its set of seen ids.\<close>

fun unique_orders :: "string set \<Rightarrow> order_row list \<Rightarrow> order_row list" where
  "unique_orders seen_ids [] = []"
| "unique_orders seen_ids (order # rest) =
     (if o_id order \<notin> seen_ids
      then order # unique_orders (insert (o_id order) seen_ids) rest
      else unique_orders seen_ids rest)"

definition clean_orders :: "pylib \<Rightarrow> xml_order list \<Rightarrow> order_row list" where
  "clean_orders lib orders_in = unique_orders {} (List.map_filter (clean_order lib) orders_in)"

definition load_orders_to_database :: "store \<Rightarrow> order_row list \<Rightarrow> string \<Rightarrow> bool \<times> store" where
  "load_orders_to_database st rows mode =
     (let (failed, st1) =
            (if mode = ''replace''
             then (case run_op st DeleteOrders of
                     (Some e, s) \<Rightarrow> (True, s)
                   | (None, s) \<Rightarrow> (False, s\<lparr>orders := []\<rparr>))
             else (False, st))
      in if failed then (False, st1)
         else (case run_op st1 UpsertOrders of
                 (Some e, s) \<Rightarrow> (False, s)
               | (None, s) \<Rightarrow> (True, s\<lparr>orders := foldl upsert_order (orders s) rows\<rparr>)))"

definition process_xml :: "pylib \<Rightarrow> store \<Rightarrow> xml_order list option \<Rightarrow> string \<Rightarrow> pipeline_result \<times> store" where
  "process_xml lib st file mode =
     (case file of
        None \<Rightarrow> (\<lparr>success = False, records_loaded = 0, errors = [''Failed to load XML file'']\<rparr>, st)
      | Some orders_in \<Rightarrow>
          (case validate_orders lib orders_in of
             (False, validation_errors) \<Rightarrow>
               (\<lparr>success = False, records_loaded = 0, errors = validation_errors\<rparr>, st)
           | (True, _) \<Rightarrow>
               (let cleaned_orders = clean_orders lib orders_in
                in case load_orders_to_database st cleaned_orders mode of
                     (True, st') \<Rightarrow>
                       (\<lparr>success = True, records_loaded = length cleaned_orders, errors = []\<rparr>, st')
                   | (False, st') \<Rightarrow>
                       (\<lparr>success = False, records_loaded = 0,
                         errors = [''Failed to load data to database'']\<rparr>, st'))))"

text \<open>
  The clean stage as the specification words it, for customers: first drop the rows with a
  null in a required field, then keep the first occurrence of every key.
\<close>

definition spec_clean_customers :: "csv_df \<Rightarrow> customer_row list" where
  "spec_clean_customers df = drop_duplicates c_id (dropna (map normalize_row (df_rows df)))"

section \<open>Example data\<close>

text \<open>
  Concrete inputs at which the theorems below are instantiated: a store without faults,
  an instance of the two built-ins that reads plain digit strings, and small files.
\<close>

definition ex_store :: store where
  "ex_store = \<lparr>customers = [], orders = [], db_fault = (\<lambda>_. None), db_log = []\<rparr>"

definition plain_numbers :: pylib where
  "plain_numbers =
     \<lparr>float_of = (\<lambda>s. if s \<noteq> [] \<and> list_all is_digit s then Some (of_nat (nat_of_digits s)) else None),
      int_of = (\<lambda>s. if s \<noteq> [] \<and> list_all is_digit s then Some (int (nat_of_digits s)) else None)\<rparr>"

definition ex_bad_csv :: csv_df where
  "ex_bad_csv = \<lparr>df_columns = required_columns,
     df_rows = [\<lparr>r_customer_id = CStr ''C1'', r_customer_name = CStr ''Asha'',
                  r_mobile_number = CStr ''9876543210'', r_region = CStr ''North''\<rparr>,
                \<lparr>r_customer_id = CStr ''C2'', r_customer_name = CStr ''B'',
                  r_mobile_number = CStr ''12345'', r_region = CStr ''South''\<rparr>,
                \<lparr>r_customer_id = CStr ''C3'', r_customer_name = CStr ''Chitra'',
                  r_mobile_number = CStr ''9876500000'', r_region = CStr ''X''\<rparr>]\<rparr>"

definition ex_bad_xml :: "xml_order list" where
  "ex_bad_xml =
     [\<lparr>x_order_id = CStr ''O1'', x_mobile_number = CStr ''9876543210'',
       x_order_date_time = CStr ''2024-03-15'', x_sku_id = CNone,
       x_sku_count = CStr ''2'', x_total_amount = CStr ''100''\<rparr>,
      \<lparr>x_order_id = CStr ''O2'', x_mobile_number = CStr ''9876543210'',
       x_order_date_time = CStr ''2024-03-15'', x_sku_id = CStr ''S1'',
       x_sku_count = CStr ''2'', x_total_amount = CStr ''100''\<rparr>,
      \<lparr>x_order_id = CStr ''O3'', x_mobile_number = CStr ''9876543210'',
       x_order_date_time = CStr ''15.03.2024'', x_sku_id = CStr ''S1'',
       x_sku_count = CStr ''0'', x_total_amount = CStr ''100''\<rparr>]"

definition ex_good_csv :: csv_df where
  "ex_good_csv = \<lparr>df_columns = required_columns,
     df_rows = [\<lparr>r_customer_id = CStr ''C1'', r_customer_name = CStr ''Asha'',
                  r_mobile_number = CStr ''+91 98765 43210'', r_region = CStr ''North''\<rparr>,
                \<lparr>r_customer_id = CStr ''C2'', r_customer_name = CStr ''Bala'',
                  r_mobile_number = CStr ''9876500000'', r_region = CStr ''South''\<rparr>,
                \<lparr>r_customer_id = CStr '' C1'', r_customer_name = CStr ''Asha K'',
                  r_mobile_number = CStr ''9876500001'', r_region = CStr ''West''\<rparr>]\<rparr>"

text \<open>
  A customers file in which the first of two rows for \<open>C1\<close> has an empty name cell (NaN
  in the DataFrame; the validator accepts it, its text being \<open>nan\<close>) and the second is
  complete; and an orders file of the same shape, whose first order for \<open>O1\<close> has a
  count that \<open>int()\<close> rejects.
\<close>

definition ex_dup_csv :: csv_df where
  "ex_dup_csv = \<lparr>df_columns = required_columns,
     df_rows = [\<lparr>r_customer_id = CStr ''C1'', r_customer_name = CNaN,
                  r_mobile_number = CStr ''98765 43210'', r_region = CStr ''North''\<rparr>,
                \<lparr>r_customer_id = CStr ''C1'', r_customer_name = CStr ''Alice'',
                  r_mobile_number = CStr ''98765 43210'', r_region = CStr ''North''\<rparr>]\<rparr>"

definition ex_dup_xml :: "xml_order list" where
  "ex_dup_xml =
     [\<lparr>x_order_id = CStr ''O1'', x_mobile_number = CStr ''9876543210'',
       x_order_date_time = CStr ''2024-03-15'', x_sku_id = CStr ''S1'',
       x_sku_count = CStr ''two'', x_total_amount = CStr ''100''\<rparr>,
      \<lparr>x_order_id = CStr ''O1'', x_mobile_number = CStr ''9876543210'',
       x_order_date_time = CStr ''2024-03-15'', x_sku_id = CStr ''S1'',
       x_sku_count = CStr ''2'', x_total_amount = CStr ''100''\<rparr>]"

definition load_failed :: pipeline_result where
  "load_failed = \<lparr>success = False, records_loaded = 0, errors = [''Failed to load data to database'']\<rparr>"

section \<open>Python dictionaries and dates\<close>

text \<open>
  KPI results are duck-typed dictionaries; a dictionary is an association list in
  insertion order. Numbers that Python holds as \<open>float\<close> or \<open>Decimal\<close> are exact
  rationals here: rounding is not modelled.
\<close>

datatype pyval =
  VNone | VNaN | VBool bool | VInt int | VNum rat | VStr string | VDate datetime
  | VList "pyval list" | VDict "(string \<times> pyval) list"

type_synonym pydict = "(string \<times> pyval) list"


definition dict_get :: "pydict \<Rightarrow> string \<Rightarrow> pyval option" where
  "dict_get d k = map_of d k"

definition dict_set :: "pydict \<Rightarrow> string \<Rightarrow> pyval \<Rightarrow> pydict" where
  "dict_set d k v =
     (if k \<in> set (map fst d) then map (\<lambda>(k', v'). if k' = k then (k', v) else (k', v')) d
      else d @ [(k, v)])"

definition dict_update :: "pydict \<Rightarrow> pydict \<Rightarrow> pydict" where
  "dict_update d other = foldl (\<lambda>acc (k, v). dict_set acc k v) d other"

definition num_or_null :: "rat option \<Rightarrow> pyval" where
  "num_or_null v = (case v of None \<Rightarrow> VNone | Some x \<Rightarrow> VNum x)"

definition num_or_nan :: "rat option \<Rightarrow> pyval" where
  "num_or_nan v = (case v of None \<Rightarrow> VNaN | Some x \<Rightarrow> VNum x)"

text \<open>Zero-padded decimal fields, \<open>isoformat()\<close>, \<open>str\<close> of a timestamp, and \<open>%Y-%m\<close>.\<close>

definition pad :: "nat \<Rightarrow> nat \<Rightarrow> string" where
  "pad w n = (let s = digits_of_nat n in replicate (w - length s) CHR ''0'' @ s)"

definition date_str :: "datetime \<Rightarrow> string" where
  "date_str d = pad 4 (dt_year d) @ ''-'' @ pad 2 (dt_month d) @ ''-'' @ pad 2 (dt_day d)"

definition time_str :: "datetime \<Rightarrow> string" where
  "time_str d = pad 2 (dt_hour d) @ '':'' @ pad 2 (dt_minute d) @ '':'' @ pad 2 (dt_second d)"

definition isoformat :: "datetime \<Rightarrow> string" where
  "isoformat d = date_str d @ ''T'' @ time_str d"

definition timestamp_str :: "datetime \<Rightarrow> string" where
  "timestamp_str d = date_str d @ '' '' @ time_str d"

definition month_year :: "datetime \<Rightarrow> string" where
  "month_year d = pad 4 (dt_year d) @ ''-'' @ pad 2 (dt_month d)"

text \<open>
  Dates are compared, and days are subtracted from them, through the number of seconds
  since the start of year 1 of the proleptic Gregorian calendar, which is how both
  \<open>datetime - timedelta\<close> and \<open>DATE_SUB\<close> work.
\<close>

definition days_before_year :: "nat \<Rightarrow> nat" where
  "days_before_year y = (let p = y - 1 in p * 365 + p div 4 - p div 100 + p div 400)"

definition days_before_month :: "nat \<Rightarrow> nat \<Rightarrow> nat" where
  "days_before_month y m = sum_list (map (days_in_month y) [1..<m])"

definition dt_seconds :: "datetime \<Rightarrow> int" where
  "dt_seconds d =
     ((int (days_before_year (dt_year d) + days_before_month (dt_year d) (dt_month d) + dt_day d)
        * 24 + int (dt_hour d)) * 60 + int (dt_minute d)) * 60 + int (dt_second d)"

definition on_or_after_cutoff :: "datetime \<Rightarrow> int \<Rightarrow> datetime \<Rightarrow> bool" where
  "on_or_after_cutoff now days d = (dt_seconds d \<ge> dt_seconds now - 86400 * days)"

definition latest :: "datetime list \<Rightarrow> datetime option" where
  "latest ds = (case ds of [] \<Rightarrow> None
                | d # rest \<Rightarrow> Some (foldl (\<lambda>a b. if dt_seconds a < dt_seconds b then b else a) d rest))"

section \<open>The four queries (table\_based\_kpis.py)\<close>

text \<open>
  The SQL text of each KPI is code of the repository, run by the database. Its meaning is
  given here over the two tables: joins on equal mobile numbers, \<open>GROUP BY\<close>, aggregates
  (\<open>SUM\<close> and \<open>AVG\<close> of no value are \<open>NULL\<close>, here \<open>None\<close>), \<open>HAVING\<close>, \<open>ORDER BY\<close> and
  \<open>LIMIT\<close>. SQL leaves the order of groups and of rows with equal sort keys open; the
  model takes groups in order of (last) appearance and sorts stably.
\<close>

record repeat_row =
  rr_id :: string
  rr_name :: string
  rr_count :: int
  rr_spent :: "rat option"

record monthly_row =
  mr_month :: string
  mr_orders :: int
  mr_revenue :: "rat option"
  mr_avg :: "rat option"
  mr_unique :: int

record regional_row =
  gr_region :: string
  gr_customers :: int
  gr_orders :: int
  gr_revenue :: "rat option"
  gr_avg :: "rat option"

record top_row =
  tr_id :: string
  tr_name :: string
  tr_region :: string
  tr_count :: int
  tr_spend :: "rat option"
  tr_avg :: "rat option"
  tr_last :: "datetime option"

definition sql_inner_join :: "customer_row list \<Rightarrow> order_row list \<Rightarrow> (customer_row \<times> order_row) list" where
  "sql_inner_join cs os = filter (\<lambda>(c, r). c_mobile c = o_mobile r) (List.product cs os)"

definition sql_left_join ::
  "customer_row list \<Rightarrow> order_row list \<Rightarrow> (customer_row \<times> order_row option) list" where
  "sql_left_join cs os =
     concat (map (\<lambda>c. case filter (\<lambda>r. c_mobile c = o_mobile r) os of
                          [] \<Rightarrow> [(c, None)]
                        | ms \<Rightarrow> map (\<lambda>r. (c, Some r)) ms) cs)"

definition sql_group_by :: "('r \<Rightarrow> 'k) \<Rightarrow> 'r list \<Rightarrow> ('k \<times> 'r list) list" where
  "sql_group_by key rows = map (\<lambda>k. (k, filter (\<lambda>r. key r = k) rows)) (remdups (map key rows))"

definition non_null :: "'a option list \<Rightarrow> 'a list" where
  "non_null vs = List.map_filter (\<lambda>v. v) vs"

definition sql_count :: "'a option list \<Rightarrow> int" where
  "sql_count vs = int (length (non_null vs))"

definition sql_count_distinct :: "'a option list \<Rightarrow> int" where
  "sql_count_distinct vs = int (length (remdups (non_null vs)))"

definition sql_sum :: "rat option list \<Rightarrow> rat option" where
  "sql_sum vs = (if non_null vs = [] then None else Some (sum_list (non_null vs)))"

definition sql_avg :: "rat option list \<Rightarrow> rat option" where
  "sql_avg vs = (if non_null vs = [] then None
                 else Some (sum_list (non_null vs) / of_nat (length (non_null vs))))"

text \<open>The sort key of \<open>ORDER BY x DESC\<close>: larger values first, \<open>NULL\<close> last.\<close>

definition desc_key :: "rat option \<Rightarrow> nat \<times> rat" where
  "desc_key v = (case v of None \<Rightarrow> (1, 0) | Some x \<Rightarrow> (0, - x))"

definition sql_repeat_customers :: "customer_row list \<Rightarrow> order_row list \<Rightarrow> repeat_row list" where
  "sql_repeat_customers cs os =
     (let groups = sql_group_by (\<lambda>(c, r). (c_id c, c_name c)) (sql_inner_join cs os);
          rows = map (\<lambda>((cid, cname), g).
                        \<lparr>rr_id = cid, rr_name = cname,
                         rr_count = sql_count (map (\<lambda>(c, r). Some (o_id r)) g),
                         rr_spent = sql_sum (map (\<lambda>(c, r). Some (o_amount r)) g)\<rparr>) groups;
          having = filter (\<lambda>row. rr_count row > 1) rows
      in sort_key (\<lambda>row. (- rr_count row, desc_key (rr_spent row))) having)"

definition sql_monthly_trends :: "order_row list \<Rightarrow> monthly_row list" where
  "sql_monthly_trends os =
     (let groups = sql_group_by (\<lambda>r. month_year (o_date r)) os;
          rows = map (\<lambda>(m, g).
                        \<lparr>mr_month = m,
                         mr_orders = sql_count (map (\<lambda>r. Some (o_id r)) g),
                         mr_revenue = sql_sum (map (\<lambda>r. Some (o_amount r)) g),
                         mr_avg = sql_avg (map (\<lambda>r. Some (o_amount r)) g),
                         mr_unique = sql_count_distinct (map (\<lambda>r. Some (o_mobile r)) g)\<rparr>) groups
      in sort_key mr_month rows)"

definition sql_regional_revenue :: "customer_row list \<Rightarrow> order_row list \<Rightarrow> regional_row list" where
  "sql_regional_revenue cs os =
     (let groups = sql_group_by (\<lambda>(c, r). c_region c) (sql_left_join cs os);
          rows = map (\<lambda>(reg, g).
                        \<lparr>gr_region = reg,
                         gr_customers = sql_count_distinct (map (\<lambda>(c, r). Some (c_id c)) g),
                         gr_orders = sql_count (map (\<lambda>(c, r). map_option o_id r) g),
                         gr_revenue = sql_sum (map (\<lambda>(c, r). map_option o_amount r) g),
                         gr_avg = sql_avg (map (\<lambda>(c, r). map_option o_amount r) g)\<rparr>) groups
      in sort_key (\<lambda>row. desc_key (gr_revenue row)) rows)"

text \<open>A negative \<open>LIMIT\<close> is a syntax error of the statement.\<close>

definition sql_top_customers ::
  "customer_row list \<Rightarrow> order_row list \<Rightarrow> datetime \<Rightarrow> int \<Rightarrow> int \<Rightarrow> string + top_row list" where
  "sql_top_customers cs os now days limit =
     (if limit < 0 then Inl ''You have an error in your SQL syntax''
      else
       (let recent = filter (\<lambda>(c, r). on_or_after_cutoff now days (o_date r)) (sql_inner_join cs os);
            groups = sql_group_by (\<lambda>(c, r). (c_id c, c_name c, c_region c)) recent;
            rows = map (\<lambda>((cid, cname, reg), g).
                          \<lparr>tr_id = cid, tr_name = cname, tr_region = reg,
                           tr_count = sql_count (map (\<lambda>(c, r). Some (o_id r)) g),
                           tr_spend = sql_sum (map (\<lambda>(c, r). Some (o_amount r)) g),
                           tr_avg = sql_avg (map (\<lambda>(c, r). Some (o_amount r)) g),
                           tr_last = latest (map (\<lambda>(c, r). o_date r) g)\<rparr>) groups
        in Inr (take (nat limit) (sort_key (\<lambda>row. desc_key (tr_spend row)) rows))))"

section \<open>Result envelopes (base\_kpi.py) and the table-based engine\<close>

text \<open>
  \<open>now\<close> is the reading of the clock for the call. The \<open>last_result\<close> cache of a KPI
  object is read by none of the operations below and is left out.
\<close>

definition format_result :: "string \<Rightarrow> string \<Rightarrow> pyval \<Rightarrow> pydict \<Rightarrow> datetime \<Rightarrow> pydict" where
  "format_result name description data metadata now =
     (let result = [(''kpi_name'', VStr name), (''description'', VStr description),
                    (''data'', data), (''calculated_at'', VStr (isoformat now)),
                    (''success'', VBool True)]
      in if metadata \<noteq> [] then dict_update result metadata else result)"

definition format_error :: "string \<Rightarrow> string \<Rightarrow> string \<Rightarrow> datetime \<Rightarrow> pydict" where
  "format_error name description error now =
     [(''kpi_name'', VStr name), (''description'', VStr description), (''data'', VNone),
      (''calculated_at'', VStr (isoformat now)), (''success'', VBool False),
      (''error'', VStr error)]"

text \<open>Column aggregates of pandas: nulls are skipped, the mean of nothing is NaN.\<close>

definition pd_sum :: "rat option list \<Rightarrow> rat" where
  "pd_sum vs = sum_list (non_null vs)"

definition pd_mean :: "rat option list \<Rightarrow> rat option" where
  "pd_mean vs = (if non_null vs = [] then None
                 else Some (sum_list (non_null vs) / of_nat (length (non_null vs))))"

definition pd_count :: "'a option list \<Rightarrow> int" where
  "pd_count vs = int (length (non_null vs))"

definition pd_nunique :: "'a option list \<Rightarrow> int" where
  "pd_nunique vs = int (length (remdups (non_null vs)))"

text \<open>Rows as dictionaries; \<open>nullv\<close> renders a nullable number (\<open>None\<close> or \<open>NaN\<close>).\<close>

definition repeat_dict :: "(rat option \<Rightarrow> pyval) \<Rightarrow> repeat_row \<Rightarrow> pyval" where
  "repeat_dict nullv r =
     VDict [(''customer_id'', VStr (rr_id r)), (''customer_name'', VStr (rr_name r)),
            (''order_count'', VInt (rr_count r)), (''total_spent'', nullv (rr_spent r))]"

definition monthly_dict :: "(rat option \<Rightarrow> pyval) \<Rightarrow> monthly_row \<Rightarrow> pyval" where
  "monthly_dict nullv r =
     VDict [(''month_year'', VStr (mr_month r)), (''total_orders'', VInt (mr_orders r)),
            (''total_revenue'', nullv (mr_revenue r)), (''avg_order_value'', nullv (mr_avg r)),
            (''unique_customers'', VInt (mr_unique r))]"

definition regional_dict :: "(rat option \<Rightarrow> pyval) \<Rightarrow> regional_row \<Rightarrow> pyval" where
  "regional_dict nullv r =
     VDict [(''region'', VStr (gr_region r)), (''customer_count'', VInt (gr_customers r)),
            (''total_orders'', VInt (gr_orders r)), (''total_revenue'', nullv (gr_revenue r)),
            (''avg_order_value'', nullv (gr_avg r))]"

definition top_dict :: "(rat option \<Rightarrow> pyval) \<Rightarrow> (datetime option \<Rightarrow> pyval) \<Rightarrow> top_row \<Rightarrow> pyval" where
  "top_dict nullv datev r =
     VDict [(''customer_id'', VStr (tr_id r)), (''customer_name'', VStr (tr_name r)),
            (''region'', VStr (tr_region r)), (''order_count'', VInt (tr_count r)),
            (''total_spend'', nullv (tr_spend r)), (''avg_order_value'', nullv (tr_avg r)),
            (''last_order_date'', datev (tr_last r))]"

definition sql_date :: "datetime option \<Rightarrow> pyval" where
  "sql_date d = (case d of None \<Rightarrow> VNone | Some x \<Rightarrow> VDate x)"

definition pd_date_str :: "datetime option \<Rightarrow> pyval" where
  "pd_date_str d = (case d of None \<Rightarrow> VStr ''NaT'' | Some x \<Rightarrow> VStr (timestamp_str x))"

definition repeat_metadata :: "repeat_row list \<Rightarrow> pydict" where
  "repeat_metadata rows =
     [(''total_repeat_customers'', VInt (int (length rows))),
      (''total_orders'', VInt (if rows \<noteq> [] then sum_list (map rr_count rows) else 0)),
      (''total_revenue'', VNum (if rows \<noteq> [] then pd_sum (map rr_spent rows) else 0))]"

definition int_mean :: "int list \<Rightarrow> rat" where
  "int_mean xs = of_int (sum_list xs) / of_nat (length xs)"

definition monthly_metadata :: "monthly_row list \<Rightarrow> pydict" where
  "monthly_metadata rows =
     [(''total_months'', VInt (int (length rows))),
      (''total_orders'', VInt (if rows \<noteq> [] then sum_list (map mr_orders rows) else 0)),
      (''total_revenue'', VNum (if rows \<noteq> [] then pd_sum (map mr_revenue rows) else 0)),
      (''avg_monthly_orders'', VNum (if rows \<noteq> [] then int_mean (map mr_orders rows) else 0))]"

definition highest_revenue_region :: "regional_row list \<Rightarrow> pyval" where
  "highest_revenue_region rows = (case rows of [] \<Rightarrow> VNone | r # _ \<Rightarrow> VStr (gr_region r))"

definition regional_metadata :: "regional_row list \<Rightarrow> pydict" where
  "regional_metadata rows =
     [(''total_regions'', VInt (int (length rows))),
      (''total_revenue'', VNum (if rows \<noteq> [] then pd_sum (map gr_revenue rows) else 0)),
      (''highest_revenue_region'', highest_revenue_region rows)]"

definition top_metadata :: "int \<Rightarrow> top_row list \<Rightarrow> pydict" where
  "top_metadata days rows =
     [(''time_period_days'', VInt days),
      (''top_customer_count'', VInt (int (length rows))),
      (''total_revenue_top_customers'', VNum (if rows \<noteq> [] then pd_sum (map tr_spend rows) else 0)),
      (''avg_spend_top_customers'',
         (if rows \<noteq> [] then num_or_nan (pd_mean (map tr_spend rows)) else VNum 0))]"

datatype kpi_class =
  RepeatCustomersKPI | MonthlyOrderTrendsKPI | RegionalRevenueKPI | TopCustomersLast30DaysKPI

fun kpi_name :: "kpi_class \<Rightarrow> string" where
  "kpi_name RepeatCustomersKPI = ''Repeat Customers''"
| "kpi_name MonthlyOrderTrendsKPI = ''Monthly Order Trends''"
| "kpi_name RegionalRevenueKPI = ''Regional Revenue''"
| "kpi_name TopCustomersLast30DaysKPI = ''Top Customers (Last 30 Days)''"

fun kpi_description :: "kpi_class \<Rightarrow> string" where
  "kpi_description RepeatCustomersKPI = ''Customers who have placed more than one order''"
| "kpi_description MonthlyOrderTrendsKPI = ''Orders and revenue aggregated by month''"
| "kpi_description RegionalRevenueKPI = ''Total revenue by customer region''"
| "kpi_description TopCustomersLast30DaysKPI = ''Top 10 customers by spending in the last 30 days''"

fun kpi_query :: "kpi_class \<Rightarrow> db_op" where
  "kpi_query RepeatCustomersKPI = QueryRepeat"
| "kpi_query MonthlyOrderTrendsKPI = QueryMonthly"
| "kpi_query RegionalRevenueKPI = QueryRegional"
| "kpi_query TopCustomersLast30DaysKPI = QueryTop"

text \<open>Keyword arguments: \<open>days\<close> and \<open>limit\<close>, each possibly absent; other keys are ignored.\<close>

record kwargs =
  kw_days :: "int option"
  kw_limit :: "int option"

definition days_arg :: "kwargs \<Rightarrow> int" where
  "days_arg kw = (case kw_days kw of None \<Rightarrow> 30 | Some d \<Rightarrow> d)"

definition limit_arg :: "kwargs \<Rightarrow> int" where
  "limit_arg kw = (case kw_limit kw of None \<Rightarrow> 10 | Some l \<Rightarrow> l)"

text \<open>
  What the statement of a KPI returns on the tables, with the metadata its \<open>calculate\<close>
  derives from the rows; an error of the statement itself is \<open>Inl\<close>.
\<close>

fun query_result :: "kpi_class \<Rightarrow> store \<Rightarrow> kwargs \<Rightarrow> datetime \<Rightarrow> string + (pyval \<times> pydict)" where
  "query_result RepeatCustomersKPI st kw now =
     (let results = sql_repeat_customers (customers st) (orders st)
      in Inr (VList (map (repeat_dict num_or_null) results), repeat_metadata results))"
| "query_result MonthlyOrderTrendsKPI st kw now =
     (let results = sql_monthly_trends (orders st)
      in Inr (VList (map (monthly_dict num_or_null) results), monthly_metadata results))"
| "query_result RegionalRevenueKPI st kw now =
     (let results = sql_regional_revenue (customers st) (orders st)
      in Inr (VList (map (regional_dict num_or_null) results), regional_metadata results))"
| "query_result TopCustomersLast30DaysKPI st kw now =
     (case sql_top_customers (customers st) (orders st) now (days_arg kw) (limit_arg kw) of
        Inl e \<Rightarrow> Inl e
      | Inr results \<Rightarrow>
          Inr (VList (map (top_dict num_or_null sql_date) results),
               top_metadata (days_arg kw) results))"

text \<open>
  \<open>calculate\<close> of a KPI class: the \<open>try\<close> block runs the statement and formats the result;
  any exception (a fault of the store, an error of the statement) is caught and
  formatted by \<open>_format_error\<close>.
\<close>

definition calculate :: "kpi_class \<Rightarrow> store \<Rightarrow> kwargs \<Rightarrow> datetime \<Rightarrow> pydict \<times> store" where
  "calculate kpi st kw now =
     (case run_op st (kpi_query kpi) of
        (Some e, st') \<Rightarrow> (format_error (kpi_name kpi) (kpi_description kpi) e now, st')
      | (None, st') \<Rightarrow>
          (case query_result kpi st' kw now of
             Inl e \<Rightarrow> (format_error (kpi_name kpi) (kpi_description kpi) e now, st')
           | Inr (data, metadata) \<Rightarrow>
               (format_result (kpi_name kpi) (kpi_description kpi) data metadata now, st')))"

definition kpis :: "(string \<times> kpi_class) list" where
  "kpis = [(''repeat_customers'', RepeatCustomersKPI), (''monthly_trends'', MonthlyOrderTrendsKPI),
           (''regional_revenue'', RegionalRevenueKPI), (''top_customers'', TopCustomersLast30DaysKPI)]"

definition calculate_kpi :: "store \<Rightarrow> string \<Rightarrow> kwargs \<Rightarrow> datetime \<Rightarrow> pydict \<times> store" where
  "calculate_kpi st name kw now =
     (case map_of kpis name of
        None \<Rightarrow> ([(''success'', VBool False),
                   (''error'', VStr (''Unknown KPI: '' @ name @ ''. Available: ''
                                     @ py_repr_list (map fst kpis)))], st)
      | Some kpi \<Rightarrow> calculate kpi st kw now)"

text \<open>The loop \<open>for kpi_name, kpi in self.kpis.items()\<close> of \<open>calculate_all_kpis\<close>.\<close>

fun calculate_each :: "(string \<times> kpi_class) list \<Rightarrow> store \<Rightarrow> kwargs \<Rightarrow> datetime
    \<Rightarrow> (string \<times> pydict) list \<times> store" where
  "calculate_each [] st kw now = ([], st)"
| "calculate_each ((name, kpi) # rest) st kw now =
     (let (result, st1) = calculate kpi st kw now;
          (results, st2) = calculate_each rest st1 kw now
      in ((name, result) # results, st2))"

definition calculate_all_kpis :: "store \<Rightarrow> kwargs \<Rightarrow> datetime \<Rightarrow> (string \<times> pydict) list \<times> store" where
  "calculate_all_kpis st kw now = calculate_each kpis st kw now"

section \<open>The memory-based engine (memory\_based\_kpis.py)\<close>

text \<open>
  A DataFrame built from the rows of a query has the columns of its rows: built from no
  row at all it has no column, and selecting or merging on a column of it raises
  \<open>KeyError\<close>. \<open>NoColumns\<close> is that frame; \<open>Frame rows\<close> is a frame with columns.
  The conversion of the date column by \<open>pd.to_datetime\<close> is the identity on modelled dates.
\<close>

datatype 'a frame = NoColumns | Frame "'a list"

definition DataFrame :: "'a list \<Rightarrow> 'a frame" where
  "DataFrame rows = (if rows = [] then NoColumns else Frame rows)"

fun frame_rows :: "'a frame \<Rightarrow> 'a list" where
  "frame_rows NoColumns = []"
| "frame_rows (Frame rows) = rows"

definition frame_empty :: "'a frame \<Rightarrow> bool" where
  "frame_empty f = (frame_rows f = [])"

datatype py_error = KeyError string | AttributeError string | TypeError string

fun error_str :: "py_error \<Rightarrow> string" where
  "error_str (KeyError k) = py_repr_str k"
| "error_str (AttributeError a) =
     py_repr_str ''NoneType'' @ '' object has no attribute '' @ py_repr_str a"
| "error_str (TypeError m) = m"

record mem_engine =
  customers_df :: "customer_row frame option"
  orders_df :: "order_row frame option"

definition load_data :: "mem_engine \<Rightarrow> store \<Rightarrow> bool \<times> mem_engine \<times> store" where
  "load_data eng st =
     (case run_op st SelectCustomers of
        (Some e, st1) \<Rightarrow> (False, eng, st1)
      | (None, st1) \<Rightarrow>
          (let eng1 = eng\<lparr>customers_df := Some (DataFrame (customers st1))\<rparr>
           in case run_op st1 SelectOrders of
                (Some e, st2) \<Rightarrow> (False, eng1, st2)
              | (None, st2) \<Rightarrow> (True, eng1\<lparr>orders_df := Some (DataFrame (orders st2))\<rparr>, st2)))"

text \<open>\<open>if self.customers_df is None or self.orders_df is None: self.load_data()\<close>.\<close>

definition ensure_loaded :: "mem_engine \<Rightarrow> store \<Rightarrow> mem_engine \<times> store" where
  "ensure_loaded eng st =
     (if customers_df eng = None \<or> orders_df eng = None
      then (case load_data eng st of (ok, eng', st') \<Rightarrow> (eng', st'))
      else (eng, st))"

definition memory_result :: "string \<Rightarrow> pyval \<Rightarrow> pydict \<Rightarrow> datetime \<Rightarrow> pydict" where
  "memory_result name results metadata now =
     [(''kpi_name'', VStr name), (''data'', results), (''metadata'', VDict metadata),
      (''calculated_at'', VStr (isoformat now)), (''success'', VBool True),
      (''method'', VStr ''memory'')]"

definition memory_error :: "py_error \<Rightarrow> pydict" where
  "memory_error e = [(''success'', VBool False), (''error'', VStr (error_str e))]"

text \<open>\<open>left.merge(right, on='mobile_number', how=...)\<close>, rows in the order of the left frame.\<close>

definition right_frame_type_error :: py_error where
  "right_frame_type_error =
     TypeError ''Can only merge Series or DataFrame objects, a <class NoneType> was passed''"

definition pd_merge_inner ::
  "customer_row frame \<Rightarrow> order_row frame \<Rightarrow> py_error + (customer_row \<times> order_row) list" where
  "pd_merge_inner left right =
     (case (left, right) of
        (Frame cs, Frame os) \<Rightarrow>
          Inr (concat (map (\<lambda>c. map (\<lambda>r. (c, r)) (filter (\<lambda>r. o_mobile r = c_mobile c) os)) cs))
      | _ \<Rightarrow> Inl (KeyError ''mobile_number''))"

definition pd_merge_left ::
  "customer_row frame \<Rightarrow> order_row frame \<Rightarrow> py_error + (customer_row \<times> order_row option) list" where
  "pd_merge_left left right =
     (case (left, right) of
        (Frame cs, Frame os) \<Rightarrow>
          Inr (concat (map (\<lambda>c. let ms = filter (\<lambda>r. o_mobile r = c_mobile c) os
                                in if ms = [] then [(c, None)] else map (\<lambda>r. (c, Some r)) ms) cs))
      | _ \<Rightarrow> Inl (KeyError ''mobile_number''))"

text \<open>\<open>groupby(keys)\<close>: one group per distinct key, groups in ascending key order.\<close>

definition pd_groupby :: "('r \<Rightarrow> 'k::linorder) \<Rightarrow> 'r list \<Rightarrow> ('k \<times> 'r list) list" where
  "pd_groupby key rows =
     map (\<lambda>k. (k, filter (\<lambda>r. key r = k) rows)) (sort (remdups (map key rows)))"

definition fillna0 :: "rat option \<Rightarrow> rat option" where
  "fillna0 v = Some (case v of None \<Rightarrow> 0 | Some x \<Rightarrow> x)"

definition repeat_customers_rows :: "mem_engine \<Rightarrow> py_error + repeat_row list" where
  "repeat_customers_rows eng =
     (case customers_df eng of
        None \<Rightarrow> Inl (AttributeError ''merge'')
      | Some cdf \<Rightarrow>
          (case orders_df eng of
             None \<Rightarrow> Inl right_frame_type_error
           | Some odf \<Rightarrow>
               (case pd_merge_inner cdf odf of
                  Inl e \<Rightarrow> Inl e
                | Inr merged \<Rightarrow>
                    (let customer_orders =
                           map (\<lambda>((cid, cname), g).
                                  \<lparr>rr_id = cid, rr_name = cname,
                                   rr_count = pd_count (map (\<lambda>(c, r). Some (o_id r)) g),
                                   rr_spent = Some (pd_sum (map (\<lambda>(c, r). Some (o_amount r)) g))\<rparr>)
                               (pd_groupby (\<lambda>(c, r). (c_id c, c_name c)) merged);
                         repeat_customers = filter (\<lambda>row. rr_count row > 1) customer_orders
                     in Inr (sort_key (\<lambda>row. (- rr_count row, desc_key (rr_spent row)))
                                      repeat_customers)))))"

definition calculate_repeat_customers :: "mem_engine \<Rightarrow> store \<Rightarrow> datetime \<Rightarrow> pydict \<times> mem_engine \<times> store" where
  "calculate_repeat_customers eng st now =
     (case ensure_loaded eng st of
        (eng1, st1) \<Rightarrow>
          ((case repeat_customers_rows eng1 of
              Inl e \<Rightarrow> memory_error e
            | Inr rows \<Rightarrow> memory_result ''Repeat Customers''
                            (VList (map (repeat_dict num_or_nan) rows)) (repeat_metadata rows) now),
           eng1, st1))"

definition monthly_trends_rows :: "mem_engine \<Rightarrow> py_error + monthly_row list" where
  "monthly_trends_rows eng =
     (case orders_df eng of
        None \<Rightarrow> Inl (AttributeError ''copy'')
      | Some NoColumns \<Rightarrow> Inl (KeyError ''order_date_time'')
      | Some (Frame os) \<Rightarrow>
          (let monthly_stats =
                 map (\<lambda>(m, g).
                        \<lparr>mr_month = m,
                         mr_orders = pd_count (map (\<lambda>r. Some (o_id r)) g),
                         mr_revenue = Some (pd_sum (map (\<lambda>r. Some (o_amount r)) g)),
                         mr_avg = pd_mean (map (\<lambda>r. Some (o_amount r)) g),
                         mr_unique = pd_nunique (map (\<lambda>r. Some (o_mobile r)) g)\<rparr>)
                     (pd_groupby (\<lambda>r. month_year (o_date r)) os)
           in Inr (sort_key mr_month monthly_stats)))"

definition calculate_monthly_trends :: "mem_engine \<Rightarrow> store \<Rightarrow> datetime \<Rightarrow> pydict \<times> mem_engine \<times> store" where
  "calculate_monthly_trends eng st now =
     (case (if (case orders_df eng of None \<Rightarrow> True | Some f \<Rightarrow> frame_empty f)
            then (case load_data eng st of (ok, eng', st') \<Rightarrow> (eng', st'))
            else (eng, st)) of
        (eng1, st1) \<Rightarrow>
          ((case monthly_trends_rows eng1 of
              Inl e \<Rightarrow> memory_error e
            | Inr rows \<Rightarrow> memory_result ''Monthly Order Trends''
                            (VList (map (monthly_dict num_or_nan) rows)) (monthly_metadata rows) now),
           eng1, st1))"

definition regional_revenue_rows :: "mem_engine \<Rightarrow> py_error + regional_row list" where
  "regional_revenue_rows eng =
     (case customers_df eng of
        None \<Rightarrow> Inl (AttributeError ''merge'')
      | Some cdf \<Rightarrow>
          (case orders_df eng of
             None \<Rightarrow> Inl right_frame_type_error
           | Some odf \<Rightarrow>
               (case pd_merge_left cdf odf of
                  Inl e \<Rightarrow> Inl e
                | Inr merged \<Rightarrow>
                    (let regional_stats =
                           map (\<lambda>(reg, g).
                                  \<lparr>gr_region = reg,
                                   gr_customers = pd_nunique (map (\<lambda>(c, r). Some (c_id c)) g),
                                   gr_orders = pd_count (map (\<lambda>(c, r). map_option o_id r) g),
                                   gr_revenue =
                                     fillna0 (Some (pd_sum (map (\<lambda>(c, r). map_option o_amount r) g))),
                                   gr_avg =
                                     fillna0 (pd_mean (map (\<lambda>(c, r). map_option o_amount r) g))\<rparr>)
                               (pd_groupby (\<lambda>(c, r). c_region c) merged)
                     in Inr (sort_key (\<lambda>row. desc_key (gr_revenue row)) regional_stats)))))"

definition memory_regional_metadata :: "regional_row list \<Rightarrow> pydict" where
  "memory_regional_metadata rows =
     [(''total_regions'', VInt (int (length rows))),
      (''total_revenue'', VNum (pd_sum (map gr_revenue rows))),
      (''highest_revenue_region'', highest_revenue_region rows)]"

definition calculate_regional_revenue :: "mem_engine \<Rightarrow> store \<Rightarrow> datetime \<Rightarrow> pydict \<times> mem_engine \<times> store" where
  "calculate_regional_revenue eng st now =
     (case ensure_loaded eng st of
        (eng1, st1) \<Rightarrow>
          ((case regional_revenue_rows eng1 of
              Inl e \<Rightarrow> memory_error e
            | Inr rows \<Rightarrow> memory_result ''Regional Revenue''
                            (VList (map (regional_dict num_or_nan) rows))
                            (memory_regional_metadata rows) now),
           eng1, st1))"

text \<open>
  Top customers: \<open>None\<close> of the inner result is the early return for no recent order.
  \<open>nlargest(limit, 'total_spend')\<close> keeps the first rows of a stable descending sort.
\<close>

definition top_customers_rows ::
  "mem_engine \<Rightarrow> datetime \<Rightarrow> int \<Rightarrow> int \<Rightarrow> py_error + top_row list option" where
  "top_customers_rows eng now days limit =
     (case orders_df eng of
        None \<Rightarrow> Inl (TypeError (py_repr_str ''NoneType'' @ '' object is not subscriptable''))
      | Some NoColumns \<Rightarrow> Inl (KeyError ''order_date_time'')
      | Some (Frame os) \<Rightarrow>
          (let recent_orders = filter (\<lambda>r. on_or_after_cutoff now days (o_date r)) os
           in if recent_orders = [] then Inr None
              else
               (case customers_df eng of
                  None \<Rightarrow> Inl (AttributeError ''merge'')
                | Some cdf \<Rightarrow>
                    (case pd_merge_inner cdf (Frame recent_orders) of
                       Inl e \<Rightarrow> Inl e
                     | Inr merged \<Rightarrow>
                         (let customer_stats =
                                map (\<lambda>((cid, cname, reg), g).
                                       \<lparr>tr_id = cid, tr_name = cname, tr_region = reg,
                                        tr_count = pd_count (map (\<lambda>(c, r). Some (o_id r)) g),
                                        tr_spend = Some (pd_sum (map (\<lambda>(c, r). Some (o_amount r)) g)),
                                        tr_avg = pd_mean (map (\<lambda>(c, r). Some (o_amount r)) g),
                                        tr_last = latest (map (\<lambda>(c, r). o_date r) g)\<rparr>)
                                    (pd_groupby (\<lambda>(c, r). (c_id c, c_name c, c_region c)) merged);
                              kept = filter (\<lambda>row. tr_spend row \<noteq> None) customer_stats
                          in Inr (Some (take (nat limit)
                                         (sort_key (\<lambda>row. desc_key (tr_spend row)) kept))))))))"

definition memory_top_metadata :: "int \<Rightarrow> top_row list \<Rightarrow> pydict" where
  "memory_top_metadata days rows =
     [(''time_period_days'', VInt days),
      (''top_customer_count'', VInt (int (length rows))),
      (''total_revenue_top_customers'', VNum (pd_sum (map tr_spend rows))),
      (''avg_spend_top_customers'', num_or_nan (pd_mean (map tr_spend rows)))]"

definition calculate_top_customers_last_30_days ::
  "mem_engine \<Rightarrow> store \<Rightarrow> kwargs \<Rightarrow> datetime \<Rightarrow> pydict \<times> mem_engine \<times> store" where
  "calculate_top_customers_last_30_days eng st kw now =
     (case ensure_loaded eng st of
        (eng1, st1) \<Rightarrow>
          ((case top_customers_rows eng1 now (days_arg kw) (limit_arg kw) of
              Inl e \<Rightarrow> memory_error e
            | Inr None \<Rightarrow>
                memory_result ''Top Customers (Last 30 Days)'' (VList [])
                  [(''time_period_days'', VInt (days_arg kw)), (''top_customer_count'', VInt 0)] now
            | Inr (Some rows) \<Rightarrow>
                memory_result ''Top Customers (Last 30 Days)''
                  (VList (map (top_dict num_or_nan pd_date_str) rows))
                  (memory_top_metadata (days_arg kw) rows) now),
           eng1, st1))"

definition memory_calculate_all_kpis ::
  "mem_engine \<Rightarrow> store \<Rightarrow> kwargs \<Rightarrow> datetime \<Rightarrow> pydict \<times> mem_engine \<times> store" where
  "memory_calculate_all_kpis eng st kw now =
     (case (if customers_df eng = None \<or> orders_df eng = None
            then load_data eng st else (True, eng, st)) of
        (False, eng0, st0) \<Rightarrow>
          ([(''success'', VBool False), (''error'', VStr ''Failed to load data'')], eng0, st0)
      | (True, eng0, st0) \<Rightarrow>
          (case calculate_repeat_customers eng0 st0 now of
             (r1, eng1, st1) \<Rightarrow>
               (case calculate_monthly_trends eng1 st1 now of
                  (r2, eng2, st2) \<Rightarrow>
                    (case calculate_regional_revenue eng2 st2 now of
                       (r3, eng3, st3) \<Rightarrow>
                         (case calculate_top_customers_last_30_days eng3 st3 kw now of
                            (r4, eng4, st4) \<Rightarrow>
                              ([(''repeat_customers'', VDict r1), (''monthly_trends'', VDict r2),
                                (''regional_revenue'', VDict r3), (''top_customers'', VDict r4)],
                               eng4, st4))))))"

definition faulty_store :: "db_op \<Rightarrow> store" where
  "faulty_store q = \<lparr>customers = [], orders = [],
                     db_fault = (\<lambda>x. if x = q then Some ''connection lost'' else None),
                     db_log = []\<rparr>"

section \<open>Comparing the results of the two engines\<close>







definition ex_kpi_store :: store where
  "ex_kpi_store =
     \<lparr>customers =
        [\<lparr>c_id = ''C1'', c_name = ''Asha'', c_mobile = ''9876543210'', c_region = ''North''\<rparr>,
         \<lparr>c_id = ''C2'', c_name = ''Bala'', c_mobile = ''9876500000'', c_region = ''South''\<rparr>,
         \<lparr>c_id = ''C3'', c_name = ''Chitra'', c_mobile = ''9876511111'', c_region = ''North''\<rparr>],
      orders =
        [\<lparr>o_id = ''O1'', o_mobile = ''9876543210'', o_date = date_only 2024 3 1,
          o_sku_id = ''S1'', o_sku_count = 1, o_amount = 100\<rparr>,
         \<lparr>o_id = ''O2'', o_mobile = ''9876543210'', o_date = date_only 2024 3 10,
          o_sku_id = ''S2'', o_sku_count = 2, o_amount = 250\<rparr>,
         \<lparr>o_id = ''O3'', o_mobile = ''9876511111'', o_date = date_only 2024 2 20,
          o_sku_id = ''S1'', o_sku_count = 1, o_amount = 75\<rparr>],
      db_fault = (\<lambda>_. None), db_log = []\<rparr>"

definition new_engine :: mem_engine where
  "new_engine = \<lparr>customers_df = None, orders_df = None\<rparr>"

definition no_kwargs :: kwargs where
  "no_kwargs = \<lparr>kw_days = None, kw_limit = None\<rparr>"

text \<open>
  The rows a caller reads from a result, \<open>result.get('data', [])\<close>: a failure dictionary
  has no \<open>data\<close> field and yields no row.
\<close>

definition result_rows :: "pydict \<Rightarrow> pyval list" where
  "result_rows env = (case dict_get env ''data'' of Some (VList rows) \<Rightarrow> rows | _ \<Rightarrow> [])"





section \<open>Properties of the validators\<close>

lemma filter_dropWhile_space:
  "(\<And>c. P c \<Longrightarrow> \<not> is_space c) \<Longrightarrow> filter P (dropWhile is_space s) = filter P s"
  by (induction s) auto

lemma filter_py_strip:
  assumes "\<And>c. P c \<Longrightarrow> \<not> is_space c"
  shows "filter P (py_strip s) = filter P s"
proof -
  have "filter P (py_strip s) = rev (filter P (dropWhile is_space (rev (dropWhile is_space s))))"
    by (simp add: py_strip_def rev_filter)
  also have "\<dots> = rev (filter P (rev (dropWhile is_space s)))"
    using assms by (simp add: filter_dropWhile_space)
  also have "\<dots> = filter P (dropWhile is_space s)"
    by (simp add: rev_filter)
  also have "\<dots> = filter P s"
    using assms by (simp add: filter_dropWhile_space)
  finally show ?thesis .
qed

lemma keep_not_space: "keep_digit_plus c \<Longrightarrow> \<not> is_space c"
  by (auto simp: keep_digit_plus_def is_digit_def is_space_def digit_chars_def)

lemma digit_not_space: "is_digit c \<Longrightarrow> \<not> is_space c"
  by (auto simp: is_digit_def is_space_def digit_chars_def)

lemma digits_of_kept: "filter is_digit (filter keep_digit_plus s) = filter is_digit s"
  by (induction s) (auto simp: keep_digit_plus_def)

text \<open>
  C4 (as the code has it). For every input string, \<open>normalize_mobile_number\<close> returns null
  exactly when the string has fewer than 8 digits, with no upper bound on the digit count,
  and otherwise returns the input with every character removed that is neither a digit
  nor a plus sign; a plus sign is kept wherever it stands, not only in front.
  \<open>"12345"\<close> gives null and \<open>"+91 98765 43210"\<close> gives \<open>"+919876543210"\<close>.
\<close>

theorem normalize_mobile_number_keeps_digits_and_plus:
  "normalize_mobile_number (CStr s) =
     (if length (filter is_digit s) < 8 then None else Some (filter keep_digit_plus s))
   \<and> normalize_mobile_number (CStr ''12345'') = None
   \<and> normalize_mobile_number (CStr ''+91 98765 43210'') = Some ''+919876543210''"
proof -
  have clean: "sub_non_digit_plus (py_strip s) = filter keep_digit_plus s" for s
    by (simp add: sub_non_digit_plus_def filter_py_strip keep_not_space)
  have count: "sub_non_digit (filter keep_digit_plus s) = filter is_digit s" for s
    by (simp add: sub_non_digit_def digits_of_kept del: filter_filter)
  have empty: "filter keep_digit_plus s = [] \<Longrightarrow> filter is_digit s = []" for s
    using digits_of_kept [of s] by simp
  have gen: "normalize_mobile_number (CStr s) =
     (if length (filter is_digit s) < 8 then None else Some (filter keep_digit_plus s))" for s
  proof (cases "s = []")
    case True
    then show ?thesis by (simp add: normalize_mobile_number_def)
  next
    case False
    then show ?thesis
      using empty [of s] by (auto simp: normalize_mobile_number_def clean count Let_def)
  qed
  have e1: "normalize_mobile_number (CStr ''12345'') = None"
    by (simp add: gen is_digit_def digit_chars_def)
  have e2: "normalize_mobile_number (CStr ''+91 98765 43210'') = Some ''+919876543210''"
    by (simp add: gen is_digit_def digit_chars_def keep_digit_plus_def)
  show ?thesis using gen e1 e2 by blast
qed

theorem normalize_mobile_number_keeps_digits_and_plus_witness:
  "normalize_mobile_number (CStr ''0123456789012345'') = Some ''0123456789012345''"
  using normalize_mobile_number_keeps_digits_and_plus [of "''0123456789012345''"]
  by (simp add: is_digit_def digit_chars_def keep_digit_plus_def)

theorem normalize_mobile_number_inner_plus_counterexample:
  "normalize_mobile_number (CStr ''12+345678'') = Some ''12+345678''
   \<and> spec_normalize_mobile_number ''12+345678'' = Some ''12345678''"
  by (simp add: normalize_mobile_number_def spec_normalize_mobile_number_def
      sub_non_digit_plus_def sub_non_digit_def keep_digit_plus_def is_digit_def digit_chars_def
      py_strip_def is_space_def)

lemma try_formats_None_iff:
  "try_formats fs s = None \<longleftrightarrow> (\<forall>i<length fs. strptime s (fs ! i) = None)"
proof (induction fs)
  case Nil
  then show ?case by simp
next
  case (Cons f fs)
  show ?case
  proof (cases "strptime s f")
    case None
    then show ?thesis using Cons.IH by (auto simp: less_Suc_eq_0_disj)
  next
    case (Some d)
    then show ?thesis by auto
  qed
qed

lemma try_formats_Some_iff:
  "try_formats fs s = Some d \<longleftrightarrow>
     (\<exists>i<length fs. strptime s (fs ! i) = Some d \<and> (\<forall>j<i. strptime s (fs ! j) = None))"
proof (induction fs)
  case Nil
  then show ?case by simp
next
  case (Cons f fs)
  show ?case
  proof (cases "strptime s f")
    case None
    have "(\<exists>i<length (f # fs). strptime s ((f # fs) ! i) = Some d \<and> (\<forall>j<i. strptime s ((f # fs) ! j) = None))
          \<longleftrightarrow> (\<exists>i<length fs. strptime s (fs ! i) = Some d \<and> (\<forall>j<i. strptime s (fs ! j) = None))"
      (is "?L \<longleftrightarrow> ?R")
    proof
      assume ?L
      then obtain i where i: "i < length (f # fs)" "strptime s ((f # fs) ! i) = Some d"
        "\<forall>j<i. strptime s ((f # fs) ! j) = None" by blast
      from i(2) None obtain k where k: "i = Suc k" by (cases i) auto
      have "\<forall>j<k. strptime s (fs ! j) = None"
      proof (intro allI impI)
        fix j assume "j < k"
        then have "Suc j < i" using k by simp
        with i(3) have "strptime s ((f # fs) ! Suc j) = None" by blast
        then show "strptime s (fs ! j) = None" by simp
      qed
      with i k show ?R by auto
    next
      assume ?R
      then obtain i where i: "i < length fs" "strptime s (fs ! i) = Some d"
        "\<forall>j<i. strptime s (fs ! j) = None" by blast
      have "\<forall>j<Suc i. strptime s ((f # fs) ! j) = None"
        using i(3) None by (auto simp: less_Suc_eq_0_disj)
      with i show ?L by (intro exI [of _ "Suc i"]) auto
    qed
    with None Cons.IH show ?thesis by simp
  next
    case (Some d')
    have "(\<exists>i<length (f # fs). strptime s ((f # fs) ! i) = Some d \<and> (\<forall>j<i. strptime s ((f # fs) ! j) = None))
          \<longleftrightarrow> d' = d"
    proof
      assume "\<exists>i<length (f # fs). strptime s ((f # fs) ! i) = Some d \<and> (\<forall>j<i. strptime s ((f # fs) ! j) = None)"
      then obtain i where i: "strptime s ((f # fs) ! i) = Some d"
        "\<forall>j<i. strptime s ((f # fs) ! j) = None" by blast
      have "i = 0"
      proof (rule ccontr)
        assume "i \<noteq> 0"
        then have "strptime s ((f # fs) ! 0) = None" using i(2) by blast
        with Some show False by simp
      qed
      with i(1) Some show "d' = d" by simp
    next
      assume "d' = d"
      with Some show "\<exists>i<length (f # fs). strptime s ((f # fs) ! i) = Some d \<and> (\<forall>j<i. strptime s ((f # fs) ! j) = None)"
        by (intro exI [of _ 0]) simp
    qed
    with Some show ?thesis by simp
  qed
qed

text \<open>
  C5. With no explicit format, \<open>validate_datetime\<close> tries exactly the five formats
  ISO-with-seconds, \<open>YYYY-MM-DD HH:MM:SS\<close>, \<open>YYYY-MM-DD\<close>, \<open>DD-MM-YYYY\<close>, \<open>DD/MM/YYYY\<close>
  in that order on the stripped input; it returns the datetime of the first format that
  parses, and null exactly when the input is empty or no format parses.
  \<open>"2024-03-15"\<close> parses to 15 March 2024 00:00:00, \<open>"15/03/2024"\<close> to the same date
  through the last format only, and \<open>"not-a-date"\<close> gives null.
\<close>

theorem validate_datetime_first_matching_format:
  "default_formats = [fmt_iso, fmt_ymd_hms, fmt_ymd, fmt_dmy_dash, fmt_dmy_slash]
   \<and> (validate_datetime (CStr s) None = Some d \<longleftrightarrow>
        s \<noteq> [] \<and> (\<exists>i<length default_formats.
                      strptime (py_strip s) (default_formats ! i) = Some d
                      \<and> (\<forall>j<i. strptime (py_strip s) (default_formats ! j) = None)))
   \<and> (validate_datetime (CStr s) None = None \<longleftrightarrow>
        s = [] \<or> (\<forall>i<length default_formats. strptime (py_strip s) (default_formats ! i) = None))
   \<and> validate_datetime (CStr ''2024-03-15'') None = Some (date_only 2024 3 15)
   \<and> validate_datetime (CStr ''15/03/2024'') None = Some (date_only 2024 3 15)
   \<and> map (strptime ''15/03/2024'') default_formats
       = [None, None, None, None, Some (date_only 2024 3 15)]
   \<and> validate_datetime (CStr ''not-a-date'') None = None"
proof -
  have a: "default_formats = [fmt_iso, fmt_ymd_hms, fmt_ymd, fmt_dmy_dash, fmt_dmy_slash]"
    by (simp add: default_formats_def)
  have v: "validate_datetime (CStr s) None
            = (if s = [] then None else try_formats default_formats (py_strip s))"
    by (simp add: validate_datetime_def)
  have b: "validate_datetime (CStr s) None = Some d \<longleftrightarrow>
        s \<noteq> [] \<and> (\<exists>i<length default_formats.
                      strptime (py_strip s) (default_formats ! i) = Some d
                      \<and> (\<forall>j<i. strptime (py_strip s) (default_formats ! j) = None))"
    unfolding v using try_formats_Some_iff [of default_formats "py_strip s" d] by simp
  have c: "validate_datetime (CStr s) None = None \<longleftrightarrow>
        s = [] \<or> (\<forall>i<length default_formats. strptime (py_strip s) (default_formats ! i) = None)"
    unfolding v using try_formats_None_iff [of default_formats "py_strip s"] by simp
  have e1: "validate_datetime (CStr ''2024-03-15'') None = Some (date_only 2024 3 15)"
    by code_simp
  have e2: "validate_datetime (CStr ''15/03/2024'') None = Some (date_only 2024 3 15)"
    by code_simp
  have e3: "map (strptime ''15/03/2024'') default_formats
       = [None, None, None, None, Some (date_only 2024 3 15)]"
    by code_simp
  have e4: "validate_datetime (CStr ''not-a-date'') None = None"
    by code_simp
  show ?thesis using a b c e1 e2 e3 e4 by blast
qed

theorem validate_datetime_first_matching_format_witness:
  "validate_datetime (CStr ''15-03-2024 '') None = Some (date_only 2024 3 15)
   \<and> (\<exists>i<length default_formats.
         strptime (py_strip ''15-03-2024 '') (default_formats ! i) = Some (date_only 2024 3 15))"
proof -
  have "validate_datetime (CStr ''15-03-2024 '') None = Some (date_only 2024 3 15)"
    by code_simp
  then show ?thesis
    using validate_datetime_first_matching_format [of "''15-03-2024 ''" "date_only 2024 3 15"]
    by blast
qed

section \<open>Properties of the ingestion pipelines\<close>

lemma filter_upt_Suc:
  "filter P [0..<Suc n] = (if P 0 then [0] else []) @ map Suc (filter (\<lambda>k. P (Suc k)) [0..<n])"
proof -
  have "[0..<Suc n] = 0 # map Suc [0..<n]"
    by (simp add: upt_conv_Cons map_Suc_upt del: upt_Suc)
  then show ?thesis by (simp add: filter_map comp_def del: upt_Suc)
qed

lemma validate_rows_eq:
  "validate_rows idx rows =
     map (\<lambda>k. ''Row '' @ string_of_int (int (idx + k + 2)) @ '': ''
                @ join_sep '', '' (csv_row_errors (rows ! k)))
         (filter (\<lambda>k. csv_row_errors (rows ! k) \<noteq> []) [0..<length rows])"
proof (induction rows arbitrary: idx)
  case Nil
  then show ?case by simp
next
  case (Cons row rows)
  show ?case
    unfolding validate_rows.simps Let_def Cons.IH length_Cons filter_upt_Suc
    by (simp add: comp_def)
qed

lemma validate_order_rows_eq:
  "validate_order_rows lib idx rows =
     map (\<lambda>k. ''Order '' @ string_of_int (int (idx + k + 1)) @ '': ''
                @ join_sep '', '' (xml_row_errors lib (rows ! k)))
         (filter (\<lambda>k. xml_row_errors lib (rows ! k) \<noteq> []) [0..<length rows])"
proof (induction rows arbitrary: idx)
  case Nil
  then show ?case by simp
next
  case (Cons row rows)
  show ?case
    unfolding validate_order_rows.simps Let_def Cons.IH length_Cons filter_upt_Suc
    by (simp add: comp_def)
qed

lemma length_filter_index:
  "length (filter (\<lambda>k. P (xs ! k)) [0..<length xs]) = length (filter P xs)"
proof -
  have "filter P xs = map ((!) xs) (filter (\<lambda>k. P (xs ! k)) [0..<length xs])"
    by (metis (mono_tags, lifting) comp_apply filter_cong filter_map map_nth)
  then show ?thesis by (metis length_map)
qed


text \<open>
  C3. When the file has the required columns and at least one row fails field validation,
  \<open>process_csv\<close> returns \<open>success = False\<close> and \<open>records_loaded = 0\<close>, leaves the store as it
  was (no statement is sent, the log included), and its error list holds exactly one message
  per invalid row, in file order, for all invalid rows, numbered \<open>k + 2\<close> for the row at
  0-based position \<open>k\<close> (1-indexed, plus one for the header). \<open>process_xml\<close> does the same
  with \<open>Order k + 1\<close>.
\<close>

theorem validation_failure_aborts_batch:
  "(set required_columns \<subseteq> set (df_columns df)
      \<and> (\<exists>k<length (df_rows df). csv_row_errors (df_rows df ! k) \<noteq> [])
    \<longrightarrow> process_csv st (Some df) mode =
          (\<lparr>success = False, records_loaded = 0,
            errors = map (\<lambda>k. ''Row '' @ string_of_int (int k + 2) @ '': ''
                              @ join_sep '', '' (csv_row_errors (df_rows df ! k)))
                        (filter (\<lambda>k. csv_row_errors (df_rows df ! k) \<noteq> [])
                                [0..<length (df_rows df)])\<rparr>, st)
        \<and> length (errors (fst (process_csv st (Some df) mode)))
            = length (filter (\<lambda>row. csv_row_errors row \<noteq> []) (df_rows df)))
   \<and> ((\<exists>k<length xs. xml_row_errors lib (xs ! k) \<noteq> [])
    \<longrightarrow> process_xml lib st (Some xs) mode =
          (\<lparr>success = False, records_loaded = 0,
            errors = map (\<lambda>k. ''Order '' @ string_of_int (int k + 1) @ '': ''
                              @ join_sep '', '' (xml_row_errors lib (xs ! k)))
                        (filter (\<lambda>k. xml_row_errors lib (xs ! k) \<noteq> []) [0..<length xs])\<rparr>, st)
        \<and> length (errors (fst (process_xml lib st (Some xs) mode)))
            = length (filter (\<lambda>row. xml_row_errors lib row \<noteq> []) xs))"
proof (intro conjI impI)
  assume h: "set required_columns \<subseteq> set (df_columns df)
      \<and> (\<exists>k<length (df_rows df). csv_row_errors (df_rows df ! k) \<noteq> [])"
  let ?bad = "filter (\<lambda>k. csv_row_errors (df_rows df ! k) \<noteq> []) [0..<length (df_rows df)]"
  from h obtain k where k: "k < length (df_rows df)" "csv_row_errors (df_rows df ! k) \<noteq> []"
    by blast
  then have bad: "?bad \<noteq> []" by (auto simp: filter_empty_conv)
  have rows: "df_rows df \<noteq> []" using k by auto
  have miss: "filter (\<lambda>c. c \<notin> set (df_columns df)) required_columns = []"
    using h by (auto simp: filter_empty_conv)
  have v: "validate_dataframe df = (False, validate_rows 0 (df_rows df))"
    using bad rows miss by (simp add: validate_dataframe_def validate_rows_eq)
  show p: "process_csv st (Some df) mode =
          (\<lparr>success = False, records_loaded = 0,
            errors = map (\<lambda>k. ''Row '' @ string_of_int (int k + 2) @ '': ''
                              @ join_sep '', '' (csv_row_errors (df_rows df ! k))) ?bad\<rparr>, st)"
    by (simp add: process_csv_def v validate_rows_eq add.commute)
  show "length (errors (fst (process_csv st (Some df) mode)))
            = length (filter (\<lambda>row. csv_row_errors row \<noteq> []) (df_rows df))"
    unfolding p using length_filter_index [of "\<lambda>r. csv_row_errors r \<noteq> []" "df_rows df"] by simp
next
  assume h: "\<exists>k<length xs. xml_row_errors lib (xs ! k) \<noteq> []"
  let ?bad = "filter (\<lambda>k. xml_row_errors lib (xs ! k) \<noteq> []) [0..<length xs]"
  from h obtain k where k: "k < length xs" "xml_row_errors lib (xs ! k) \<noteq> []"
    by blast
  then have bad: "?bad \<noteq> []" by (auto simp: filter_empty_conv)
  have rows: "xs \<noteq> []" using k by auto
  have v: "validate_orders lib xs = (False, validate_order_rows lib 0 xs)"
    using bad rows by (simp add: validate_orders_def validate_order_rows_eq)
  show p: "process_xml lib st (Some xs) mode =
          (\<lparr>success = False, records_loaded = 0,
            errors = map (\<lambda>k. ''Order '' @ string_of_int (int k + 1) @ '': ''
                              @ join_sep '', '' (xml_row_errors lib (xs ! k))) ?bad\<rparr>, st)"
    by (simp add: process_xml_def v validate_order_rows_eq add.commute)
  show "length (errors (fst (process_xml lib st (Some xs) mode)))
            = length (filter (\<lambda>row. xml_row_errors lib row \<noteq> []) xs)"
    unfolding p using length_filter_index [of "\<lambda>r. xml_row_errors lib r \<noteq> []" xs] by simp
qed

theorem validation_failure_aborts_batch_witness:
  "process_csv ex_store (Some ex_bad_csv) ''replace'' =
     (\<lparr>success = False, records_loaded = 0,
       errors = [''Row 3: Invalid customer_name: B, Invalid mobile_number: 12345 (must be 8-15 digits)'',
                 ''Row 4: Invalid region: X'']\<rparr>, ex_store)
   \<and> process_xml plain_numbers ex_store (Some ex_bad_xml) ''replace'' =
     (\<lparr>success = False, records_loaded = 0,
       errors = [''Order 1: Missing fields: ['' @ [CHR 0x27] @ ''sku_id'' @ [CHR 0x27] @ '']'',
                 ''Order 3: Invalid order_date_time: 15.03.2024, Invalid sku_count: 0'']\<rparr>, ex_store)"
proof -
  have c1: "set required_columns \<subseteq> set (df_columns ex_bad_csv)"
    by (simp add: ex_bad_csv_def)
  have "1 < length (df_rows ex_bad_csv) \<and> csv_row_errors (df_rows ex_bad_csv ! 1) \<noteq> []"
    by code_simp
  then have c2: "\<exists>k<length (df_rows ex_bad_csv). csv_row_errors (df_rows ex_bad_csv ! k) \<noteq> []"
    by blast
  have "0 < length ex_bad_xml \<and> xml_row_errors plain_numbers (ex_bad_xml ! 0) \<noteq> []"
    by code_simp
  then have x1: "\<exists>k<length ex_bad_xml. xml_row_errors plain_numbers (ex_bad_xml ! k) \<noteq> []"
    by blast
  have e1: "map (\<lambda>k. ''Row '' @ string_of_int (int k + 2) @ '': ''
                      @ join_sep '', '' (csv_row_errors (df_rows ex_bad_csv ! k)))
                (filter (\<lambda>k. csv_row_errors (df_rows ex_bad_csv ! k) \<noteq> [])
                        [0..<length (df_rows ex_bad_csv)])
            = [''Row 3: Invalid customer_name: B, Invalid mobile_number: 12345 (must be 8-15 digits)'',
               ''Row 4: Invalid region: X'']"
    by code_simp
  have e2: "map (\<lambda>k. ''Order '' @ string_of_int (int k + 1) @ '': ''
                      @ join_sep '', '' (xml_row_errors plain_numbers (ex_bad_xml ! k)))
                (filter (\<lambda>k. xml_row_errors plain_numbers (ex_bad_xml ! k) \<noteq> [])
                        [0..<length ex_bad_xml])
            = [''Order 1: Missing fields: ['' @ [CHR 0x27] @ ''sku_id'' @ [CHR 0x27] @ '']'',
               ''Order 3: Invalid order_date_time: 15.03.2024, Invalid sku_count: 0'']"
    by code_simp
  show ?thesis
    using validation_failure_aborts_batch
      [of ex_bad_csv ex_store "''replace''" ex_bad_xml plain_numbers] c1 c2 x1
    unfolding e1 e2 by blast
qed

lemma set_drop_duplicates: "set (drop_duplicates key xs) \<subseteq> set xs"
  by (induction key xs rule: drop_duplicates.induct) auto

lemma distinct_drop_duplicates: "distinct (map key (drop_duplicates key xs))"
proof (induction key xs rule: drop_duplicates.induct)
  case (1 key)
  then show ?case by simp
next
  case (2 key x xs)
  have "key x \<notin> key ` set (drop_duplicates key (filter (\<lambda>y. key y \<noteq> key x) xs))"
    using set_drop_duplicates [of key "filter (\<lambda>y. key y \<noteq> key x) xs"] by auto
  with 2 show ?case by simp
qed

lemma c_id_complete_row: "complete_row r = Some c \<Longrightarrow> c_id c = cc_id r"
  by (auto simp: complete_row_def split: option.splits if_splits)

lemma map_c_id_dropna:
  "map c_id (dropna rows) = map cc_id (filter (\<lambda>r. complete_row r \<noteq> None) rows)"
  by (induction rows) (auto simp: dropna_def List.map_filter_simps c_id_complete_row split: option.splits)

lemma distinct_clean_dataframe: "distinct (map c_id (clean_dataframe df))"
  unfolding clean_dataframe_def map_c_id_dropna
  using distinct_drop_duplicates [of cc_id "map normalize_row (df_rows df)"]
  by (simp add: distinct_map_filter)

lemma upsert_customer_fresh:
  "c_id r \<notin> set (map c_id tbl) \<Longrightarrow> upsert_customer tbl r = tbl @ [r]"
  by (simp add: upsert_customer_def)

lemma foldl_upsert_customer_fresh:
  "distinct (map c_id rows) \<Longrightarrow> set (map c_id rows) \<inter> set (map c_id tbl) = {}
   \<Longrightarrow> foldl upsert_customer tbl rows = tbl @ rows"
proof (induction rows arbitrary: tbl)
  case Nil
  then show ?case by simp
next
  case (Cons r rows)
  have fresh: "c_id r \<notin> set (map c_id tbl)" using Cons.prems(2) by auto
  have "foldl upsert_customer (tbl @ [r]) rows = (tbl @ [r]) @ rows"
    using Cons.prems by (intro Cons.IH) auto
  then show ?case by (simp add: upsert_customer_fresh [OF fresh])
qed

lemma process_csv_replace_cases:
  "process_csv st (Some df) ''replace'' =
     (if \<not> fst (validate_dataframe df)
      then (\<lparr>success = False, records_loaded = 0, errors = snd (validate_dataframe df)\<rparr>, st)
      else if db_fault st DeleteCustomers \<noteq> None
      then (load_failed, st\<lparr>db_log := db_log st @ [DeleteCustomers]\<rparr>)
      else if db_fault st UpsertCustomers \<noteq> None
      then (load_failed, st\<lparr>customers := [], db_log := db_log st @ [DeleteCustomers, UpsertCustomers]\<rparr>)
      else (\<lparr>success = True, records_loaded = length (clean_dataframe df), errors = []\<rparr>,
            st\<lparr>customers := foldl upsert_customer [] (clean_dataframe df),
               db_log := db_log st @ [DeleteCustomers, UpsertCustomers]\<rparr>))"
proof (cases "validate_dataframe df")
  case (Pair ok errs)
  show ?thesis
  proof (cases ok)
    case False
    with Pair show ?thesis by (simp add: process_csv_def)
  next
    case True
    show ?thesis
    proof (cases "db_fault st DeleteCustomers")
      case (Some e)
      with Pair True show ?thesis
        by (simp add: process_csv_def load_customers_to_database_def run_op_def load_failed_def)
    next
      case None
      show ?thesis
      proof (cases "db_fault st UpsertCustomers")
        case (Some e)
        with Pair True None show ?thesis
          by (simp add: process_csv_def load_customers_to_database_def run_op_def load_failed_def)
      next
        case None': None
        with Pair True None show ?thesis
          by (simp add: process_csv_def load_customers_to_database_def run_op_def Let_def)
      qed
    qed
  qed
qed

text \<open>
  C6. Running \<open>process_csv\<close> in replace mode twice in succession on the same input leaves
  the customers table the same after the second run as after the first (so the row count
  is the same), for every input and store. For a valid file and a store without faults the
  run deletes all rows and then inserts the cleaned rows: the table is exactly the cleaned
  rows, and the statements sent are the delete followed by the batch insert.
\<close>

theorem replace_mode_idempotent:
  "(case process_csv st inp ''replace'' of
      (r1, s1) \<Rightarrow>
        (case process_csv s1 inp ''replace'' of
           (r2, s2) \<Rightarrow> customers s2 = customers s1
                       \<and> length (customers s2) = length (customers s1) \<and> r2 = r1))
   \<and> (validate_dataframe df = (True, []) \<and> db_fault st DeleteCustomers = None
        \<and> db_fault st UpsertCustomers = None
      \<longrightarrow> process_csv st (Some df) ''replace'' =
            (\<lparr>success = True, records_loaded = length (clean_dataframe df), errors = []\<rparr>,
             st\<lparr>customers := clean_dataframe df,
                db_log := db_log st @ [DeleteCustomers, UpsertCustomers]\<rparr>)
          \<and> length (customers (snd (process_csv st (Some df) ''replace'')))
              = records_loaded (fst (process_csv st (Some df) ''replace'')))"
proof (intro conjI impI)
  show "case process_csv st inp ''replace'' of
      (r1, s1) \<Rightarrow>
        (case process_csv s1 inp ''replace'' of
           (r2, s2) \<Rightarrow> customers s2 = customers s1
                       \<and> length (customers s2) = length (customers s1) \<and> r2 = r1)"
  proof (cases inp)
    case None
    then show ?thesis by (simp add: process_csv_def)
  next
    case (Some f)
    show ?thesis
      unfolding Some by (simp add: process_csv_replace_cases split: prod.splits)
  qed
next
  assume h: "validate_dataframe df = (True, []) \<and> db_fault st DeleteCustomers = None
        \<and> db_fault st UpsertCustomers = None"
  have up: "foldl upsert_customer [] (clean_dataframe df) = clean_dataframe df"
    using foldl_upsert_customer_fresh [OF distinct_clean_dataframe, of df "[]"] by simp
  show p: "process_csv st (Some df) ''replace'' =
            (\<lparr>success = True, records_loaded = length (clean_dataframe df), errors = []\<rparr>,
             st\<lparr>customers := clean_dataframe df,
                db_log := db_log st @ [DeleteCustomers, UpsertCustomers]\<rparr>)"
    using h by (simp add: process_csv_replace_cases up)
  show "length (customers (snd (process_csv st (Some df) ''replace'')))
              = records_loaded (fst (process_csv st (Some df) ''replace''))"
    unfolding p by simp
qed

theorem replace_mode_idempotent_witness:
  "process_csv ex_store (Some ex_good_csv) ''replace'' =
     (\<lparr>success = True, records_loaded = 2, errors = []\<rparr>,
      ex_store\<lparr>customers := [\<lparr>c_id = ''C1'', c_name = ''Asha'', c_mobile = ''+919876543210'',
                                c_region = ''North''\<rparr>,
                              \<lparr>c_id = ''C2'', c_name = ''Bala'', c_mobile = ''9876500000'',
                                c_region = ''South''\<rparr>],
                db_log := [DeleteCustomers, UpsertCustomers]\<rparr>)"
proof -
  have v: "validate_dataframe ex_good_csv = (True, [])" by code_simp
  have f: "db_fault ex_store DeleteCustomers = None" "db_fault ex_store UpsertCustomers = None"
    by (simp_all add: ex_store_def)
  have c: "clean_dataframe ex_good_csv =
             [\<lparr>c_id = ''C1'', c_name = ''Asha'', c_mobile = ''+919876543210'', c_region = ''North''\<rparr>,
              \<lparr>c_id = ''C2'', c_name = ''Bala'', c_mobile = ''9876500000'', c_region = ''South''\<rparr>]"
    by code_simp
  have l: "db_log ex_store = []" by (simp add: ex_store_def)
  show ?thesis
    using replace_mode_idempotent [where st = ex_store and inp = "Some ex_good_csv" and df = ex_good_csv] v f
    by (simp add: c l)
qed

lemma unique_orders_eq:
  "unique_orders seen_ids xs = drop_duplicates o_id (filter (\<lambda>r. o_id r \<notin> seen_ids) xs)"
proof (induction xs arbitrary: seen_ids)
  case Nil
  then show ?case by simp
next
  case (Cons x xs)
  have "filter (\<lambda>r. o_id r \<notin> insert (o_id x) seen_ids) xs
        = filter (\<lambda>y. o_id y \<noteq> o_id x) (filter (\<lambda>r. o_id r \<notin> seen_ids) xs)"
    by (induction xs) auto
  then show ?case using Cons.IH by simp
qed

lemma clean_orders_nulls_then_duplicates:
  "clean_orders lib xs = drop_duplicates o_id (List.map_filter (clean_order lib) xs)"
  by (simp add: clean_orders_def unique_orders_eq)

text \<open>
  C9, at a failing input. \<open>clean_orders\<close> drops the rows with a null first and removes
  duplicates afterwards (the lemma above), as the claim says. \<open>clean_dataframe\<close> removes
  duplicates first and drops nulls afterwards: in the two-row customers file, which passes
  validation, the complete second row for \<open>C1\<close> is removed as a duplicate of the first,
  the first is then dropped for its null name, and the pipeline reports success with no
  record loaded. In the claim's order the second row is kept.
\<close>

theorem clean_dataframe_loses_valid_duplicate:
  "validate_dataframe ex_dup_csv = (True, [])
   \<and> clean_dataframe ex_dup_csv = []
   \<and> spec_clean_customers ex_dup_csv =
       [\<lparr>c_id = ''C1'', c_name = ''Alice'', c_mobile = ''9876543210'', c_region = ''North''\<rparr>]
   \<and> fst (process_csv ex_store (Some ex_dup_csv) ''replace'')
       = \<lparr>success = True, records_loaded = 0, errors = []\<rparr>
   \<and> customers (snd (process_csv ex_store (Some ex_dup_csv) ''replace'')) = []
   \<and> clean_orders plain_numbers ex_dup_xml =
       [\<lparr>o_id = ''O1'', o_mobile = ''9876543210'', o_date = date_only 2024 3 15,
         o_sku_id = ''S1'', o_sku_count = 2, o_amount = 100\<rparr>]"
proof -
  have v: "validate_dataframe ex_dup_csv = (True, [])" by code_simp
  have c: "clean_dataframe ex_dup_csv = []" by code_simp
  have s: "spec_clean_customers ex_dup_csv =
       [\<lparr>c_id = ''C1'', c_name = ''Alice'', c_mobile = ''9876543210'', c_region = ''North''\<rparr>]"
    by code_simp
  have p: "process_csv ex_store (Some ex_dup_csv) ''replace''
           = (\<lparr>success = True, records_loaded = 0, errors = []\<rparr>,
              ex_store\<lparr>customers := [], db_log := db_log ex_store @ [DeleteCustomers, UpsertCustomers]\<rparr>)"
    by (simp add: process_csv_replace_cases v c) (simp add: ex_store_def)
  have x: "clean_orders plain_numbers ex_dup_xml =
       [\<lparr>o_id = ''O1'', o_mobile = ''9876543210'', o_date = date_only 2024 3 15,
         o_sku_id = ''S1'', o_sku_count = 2, o_amount = 100\<rparr>]"
    by code_simp
  show ?thesis unfolding p using v c s x by simp
qed

section \<open>Properties of the table-based engine\<close>

lemma available_keys:
  "py_repr_list (map fst kpis)
     = ''['' @ [CHR 0x27] @ ''repeat_customers'' @ [CHR 0x27] @ '', '' @ [CHR 0x27] @ ''monthly_trends''
       @ [CHR 0x27] @ '', '' @ [CHR 0x27] @ ''regional_revenue'' @ [CHR 0x27] @ '', '' @ [CHR 0x27]
       @ ''top_customers'' @ [CHR 0x27] @ '']''"
  by (simp add: kpis_def py_repr_list_def py_repr_str_def)

text \<open>
  C10. For every string that is not one of the four KPI keys, \<open>calculate_kpi\<close> of the
  table-based engine returns a dictionary with \<open>success = False\<close> and the error message
  \<open>Unknown KPI: <name>. Available: [...]\<close> listing the four keys; it raises nothing and
  sends no statement to the store (the store, its log included, is returned unchanged).
\<close>

theorem unknown_kpi_is_reported:
  "name \<notin> set [''repeat_customers'', ''monthly_trends'', ''regional_revenue'', ''top_customers'']
   \<Longrightarrow> calculate_kpi st name kw now =
         ([(''success'', VBool False),
           (''error'', VStr (''Unknown KPI: '' @ name @ ''. Available: ''
              @ ''['' @ [CHR 0x27] @ ''repeat_customers'' @ [CHR 0x27] @ '', '' @ [CHR 0x27]
              @ ''monthly_trends'' @ [CHR 0x27] @ '', '' @ [CHR 0x27] @ ''regional_revenue''
              @ [CHR 0x27] @ '', '' @ [CHR 0x27] @ ''top_customers'' @ [CHR 0x27] @ '']''))], st)"
proof -
  assume a: "name \<notin> set [''repeat_customers'', ''monthly_trends'', ''regional_revenue'', ''top_customers'']"
  have "map_of kpis name = None"
    using a by (simp add: kpis_def)
  then show ?thesis
    unfolding calculate_kpi_def available_keys by simp
qed

theorem unknown_kpi_is_reported_witness:
  "calculate_kpi ex_store ''churn'' \<lparr>kw_days = None, kw_limit = None\<rparr> (date_only 2024 3 15) =
         ([(''success'', VBool False),
           (''error'', VStr (''Unknown KPI: churn. Available: ''
              @ ''['' @ [CHR 0x27] @ ''repeat_customers'' @ [CHR 0x27] @ '', '' @ [CHR 0x27]
              @ ''monthly_trends'' @ [CHR 0x27] @ '', '' @ [CHR 0x27] @ ''regional_revenue''
              @ [CHR 0x27] @ '', '' @ [CHR 0x27] @ ''top_customers'' @ [CHR 0x27] @ '']''))], ex_store)"
  using unknown_kpi_is_reported [of "''churn''" ex_store "\<lparr>kw_days = None, kw_limit = None\<rparr>" "date_only 2024 3 15"]
  by simp

lemma calculate_eq:
  "calculate kpi st kw now =
     (fst (calculate kpi (st\<lparr>db_log := []\<rparr>) kw now), st\<lparr>db_log := db_log st @ [kpi_query kpi]\<rparr>)"
  by (cases kpi) (auto simp: calculate_def run_op_def split: option.splits sum.splits)

lemma calculate_each_eq:
  "calculate_each ks st kw now =
     (map (\<lambda>(n, c). (n, fst (calculate c (st\<lparr>db_log := []\<rparr>) kw now))) ks,
      st\<lparr>db_log := db_log st @ map (\<lambda>(n, c). kpi_query c) ks\<rparr>)"
proof (induction ks arbitrary: st)
  case Nil
  then show ?case by simp
next
  case (Cons a ks)
  obtain n c where a: "a = (n, c)" by (cases a)
  show ?case
    unfolding a calculate_each.simps
    by (subst calculate_eq) (simp add: Cons.IH)
qed


lemma map_of_overwrite_other:
  "k \<noteq> k' \<Longrightarrow>
   map_of (map (\<lambda>(a, b). if a = k' then (a, v) else (a, b)) d) k = map_of d k"
proof (induction d)
  case Nil
  then show ?case by simp
next
  case (Cons p d)
  obtain a b where p: "p = (a, b)" by (cases p)
  show ?case using Cons by (simp add: p)
qed

lemma map_of_append_other:
  "k \<noteq> k' \<Longrightarrow> map_of (d @ [(k', v)]) k = map_of d k"
  by (induction d) simp_all

lemma dict_get_dict_set_other:
  "k \<noteq> k' \<Longrightarrow> dict_get (dict_set d k' v) k = dict_get d k"
proof (cases "k' \<in> set (map fst d)")
  case True
  assume "k \<noteq> k'"
  then show ?thesis
    unfolding dict_get_def dict_set_def if_P [OF True] by (rule map_of_overwrite_other)
next
  case False
  assume "k \<noteq> k'"
  then show ?thesis
    unfolding dict_get_def dict_set_def if_not_P [OF False] by (rule map_of_append_other)
qed

lemma dict_get_dict_update_other:
  "k \<notin> set (map fst m) \<Longrightarrow> dict_get (dict_update d m) k = dict_get d k"
proof (induction m arbitrary: d)
  case Nil
  then show ?case by (simp add: dict_update_def)
next
  case (Cons a m)
  obtain k' v where a: "a = (k', v)" by (cases a)
  have "dict_get (dict_update (dict_set d k' v) m) k = dict_get (dict_set d k' v) k"
    using Cons by simp
  then show ?case
    using Cons.prems by (simp add: a dict_update_def dict_get_dict_set_other)
qed

lemma metadata_has_no_success:
  "''success'' \<notin> set (map fst (repeat_metadata r1))"
  "''success'' \<notin> set (map fst (monthly_metadata r2))"
  "''success'' \<notin> set (map fst (regional_metadata r3))"
  "''success'' \<notin> set (map fst (top_metadata d r4))"
  by (simp_all add: repeat_metadata_def monthly_metadata_def regional_metadata_def top_metadata_def)

lemma format_result_success:
  "''success'' \<notin> set (map fst md) \<Longrightarrow>
   dict_get (format_result n d data md now) ''success'' = Some (VBool True)"
  by (simp add: format_result_def Let_def dict_get_dict_update_other) (simp add: dict_get_def)

lemma calculate_faulted:
  "db_fault st (kpi_query c) = Some e \<Longrightarrow>
   fst (calculate c st kw now) = format_error (kpi_name c) (kpi_description c) e now"
  by (simp add: calculate_def run_op_def)

lemma calculate_unfaulted:
  "db_fault st (kpi_query c) = None \<Longrightarrow>
   fst (calculate c (st\<lparr>db_log := l\<rparr>) kw now)
     = fst (calculate c (st\<lparr>db_fault := (\<lambda>_. None), db_log := l'\<rparr>) kw now)"
  by (cases c) (auto simp: calculate_def run_op_def split: sum.splits)

lemma calculate_succeeds:
  "db_fault st (kpi_query c) = None \<Longrightarrow> 0 \<le> limit_arg kw \<Longrightarrow>
   dict_get (fst (calculate c st kw now)) ''success'' = Some (VBool True)"
  by (cases c)
     (simp_all add: calculate_def run_op_def sql_top_customers_def Let_def
        format_result_success [OF metadata_has_no_success(1)]
        format_result_success [OF metadata_has_no_success(2)]
        format_result_success [OF metadata_has_no_success(3)]
        format_result_success [OF metadata_has_no_success(4)])

lemma map_of_kpis: "(k, c) \<in> set kpis \<Longrightarrow> map_of kpis k = Some c"
  by (rule map_of_is_SomeI) (simp_all add: kpis_def)

lemma all_kpis_results:
  "fst (calculate_all_kpis st kw now)
     = map (\<lambda>(n, c). (n, fst (calculate c (st\<lparr>db_log := []\<rparr>) kw now))) kpis"
  by (simp add: calculate_all_kpis_def calculate_each_eq)

lemma map_of_map_values:
  "map_of (map (\<lambda>(n, c). (n, f c)) xs) k = map_option f (map_of xs k)"
  by (induction xs) auto

lemma map_of_all_kpis:
  "(k, c) \<in> set kpis \<Longrightarrow>
   map_of (fst (calculate_all_kpis st kw now)) k = Some (fst (calculate c (st\<lparr>db_log := []\<rparr>) kw now))"
  unfolding all_kpis_results map_of_map_values
  by (simp add: map_of_kpis)

text \<open>
  C8. In a run of \<open>calculate_all_kpis\<close> in which the statement of exactly one KPI raises,
  the result still has all four keys; the failing KPI alone yields the error envelope
  (\<open>success = False\<close> with the error message), and each of the other three yields exactly
  the envelope it yields in a run without any failure, which carries \<open>success = True\<close>
  (for a non-negative \<open>limit\<close>).
\<close>

theorem one_failing_kpi_does_not_abort_others:
  assumes "(k, cls) \<in> set kpis"
      and "db_fault st (kpi_query cls) = Some e"
      and "\<forall>c. c \<noteq> cls \<longrightarrow> db_fault st (kpi_query c) = None"
  shows "map fst (fst (calculate_all_kpis st kw now)) = map fst kpis
     \<and> map_of (fst (calculate_all_kpis st kw now)) k
         = Some (format_error (kpi_name cls) (kpi_description cls) e now)
     \<and> dict_get (format_error (kpi_name cls) (kpi_description cls) e now) ''success''
         = Some (VBool False)
     \<and> dict_get (format_error (kpi_name cls) (kpi_description cls) e now) ''error''
         = Some (VStr e)
     \<and> (\<forall>k' c. (k', c) \<in> set kpis \<and> c \<noteq> cls \<longrightarrow>
           map_of (fst (calculate_all_kpis st kw now)) k'
             = map_of (fst (calculate_all_kpis (st\<lparr>db_fault := (\<lambda>_. None)\<rparr>) kw now)) k'
           \<and> (0 \<le> limit_arg kw \<longrightarrow>
                (\<exists>env. map_of (fst (calculate_all_kpis st kw now)) k' = Some env
                       \<and> dict_get env ''success'' = Some (VBool True))))"
proof (intro conjI allI impI)
  show "map fst (fst (calculate_all_kpis st kw now)) = map fst kpis"
    by (simp add: all_kpis_results split_def comp_def)
  show "map_of (fst (calculate_all_kpis st kw now)) k
         = Some (format_error (kpi_name cls) (kpi_description cls) e now)"
    using assms(1,2) by (simp add: map_of_all_kpis calculate_faulted)
  show "dict_get (format_error (kpi_name cls) (kpi_description cls) e now) ''success''
         = Some (VBool False)"
    by (simp add: format_error_def dict_get_def)
  show "dict_get (format_error (kpi_name cls) (kpi_description cls) e now) ''error''
         = Some (VStr e)"
    by (simp add: format_error_def dict_get_def)
next
  fix k' c
  assume h: "(k', c) \<in> set kpis \<and> c \<noteq> cls"
  then have nf: "db_fault st (kpi_query c) = None" using assms(3) by blast
  show "map_of (fst (calculate_all_kpis st kw now)) k'
             = map_of (fst (calculate_all_kpis (st\<lparr>db_fault := (\<lambda>_. None)\<rparr>) kw now)) k'"
    using h calculate_unfaulted [OF nf, of "[]" kw now "[]"]
    by (simp add: map_of_all_kpis [of k' c])
next
  fix k' c
  assume h: "(k', c) \<in> set kpis \<and> c \<noteq> cls" and l: "0 \<le> limit_arg kw"
  then have nf: "db_fault (st\<lparr>db_log := []\<rparr>) (kpi_query c) = None" using assms(3) by simp
  show "\<exists>env. map_of (fst (calculate_all_kpis st kw now)) k' = Some env
                       \<and> dict_get env ''success'' = Some (VBool True)"
    using h calculate_succeeds [OF nf l] by (simp add: map_of_all_kpis [of k' c])
qed

theorem one_failing_kpi_does_not_abort_others_witness:
  "map fst (fst (calculate_all_kpis (faulty_store QueryRegional) \<lparr>kw_days = None, kw_limit = None\<rparr>
                  (date_only 2024 3 15)))
     = [''repeat_customers'', ''monthly_trends'', ''regional_revenue'', ''top_customers'']
   \<and> map_of (fst (calculate_all_kpis (faulty_store QueryRegional) \<lparr>kw_days = None, kw_limit = None\<rparr>
                  (date_only 2024 3 15))) ''regional_revenue''
     = Some (format_error ''Regional Revenue'' ''Total revenue by customer region''
              ''connection lost'' (date_only 2024 3 15))"
proof -
  have a: "(''regional_revenue'', RegionalRevenueKPI) \<in> set kpis" by (simp add: kpis_def)
  have b: "db_fault (faulty_store QueryRegional) (kpi_query RegionalRevenueKPI) = Some ''connection lost''"
    by (simp add: faulty_store_def)
  have c: "\<forall>c. c \<noteq> RegionalRevenueKPI \<longrightarrow> db_fault (faulty_store QueryRegional) (kpi_query c) = None"
  proof (intro allI impI)
    fix c :: kpi_class assume "c \<noteq> RegionalRevenueKPI"
    then show "db_fault (faulty_store QueryRegional) (kpi_query c) = None"
      by (cases c) (simp_all add: faulty_store_def)
  qed
  show ?thesis
    using one_failing_kpi_does_not_abort_others [OF a b c, of "\<lparr>kw_days = None, kw_limit = None\<rparr>" "date_only 2024 3 15"]
    by (simp add: kpis_def)
qed

section \<open>Equivalence of the two engines on Repeat Customers\<close>

lemma product_as_concat: "List.product xs ys = concat (map (\<lambda>x. map (Pair x) ys) xs)"
  by (induction xs) simp_all



lemma group_nonempty: "k \<in> set (map key rows) \<Longrightarrow> filter (\<lambda>r. key r = k) rows \<noteq> []"
  by (auto simp: filter_empty_conv)





lemma format_result_data:
  "''data'' \<notin> set (map fst md) \<Longrightarrow> dict_get (format_result n d data md now) ''data'' = Some data"
  by (simp add: format_result_def Let_def dict_get_dict_update_other) (simp add: dict_get_def)


lemma load_data_ok:
  "db_fault st SelectCustomers = None \<Longrightarrow> db_fault st SelectOrders = None \<Longrightarrow>
   load_data eng st
     = (True, \<lparr>customers_df = Some (DataFrame (customers st)), orders_df = Some (DataFrame (orders st))\<rparr>,
        st\<lparr>db_log := db_log st @ [SelectCustomers, SelectOrders]\<rparr>)"
  by (simp add: load_data_def run_op_def Let_def)

lemma memory_repeat_data:
  "repeat_customers_rows \<lparr>customers_df = Some a, orders_df = Some b\<rparr> = Inr rows \<Longrightarrow>
   dict_get (fst (calculate_repeat_customers \<lparr>customers_df = Some a, orders_df = Some b\<rparr> st now)) ''data''
     = Some (VList (map (repeat_dict num_or_nan) rows))"
  by (simp add: calculate_repeat_customers_def ensure_loaded_def memory_result_def dict_get_def)





lemma memory_rows_empty:
  "cs = [] \<or> os = [] \<Longrightarrow>
   repeat_customers_rows \<lparr>customers_df = Some (DataFrame cs), orders_df = Some (DataFrame os)\<rparr>
     = Inl (KeyError ''mobile_number'')"
  by (auto simp: repeat_customers_rows_def DataFrame_def pd_merge_inner_def split: frame.splits)

lemma memory_engine_fails_on_empty_table:
  assumes "customers st = [] \<or> orders st = []"
      and "db_fault st SelectCustomers = None" and "db_fault st SelectOrders = None"
  shows "fst (calculate_repeat_customers new_engine st now)
           = [(''success'', VBool False), (''error'', VStr (py_repr_str ''mobile_number''))]"
  using assms
  by (simp add: calculate_repeat_customers_def ensure_loaded_def new_engine_def load_data_ok
      memory_rows_empty memory_error_def)





section \<open>Regional Revenue in the two engines\<close>

lemma table_regional_rows:
  "db_fault st QueryRegional = None \<Longrightarrow>
   result_rows (fst (calculate_kpi st ''regional_revenue'' kw now))
     = map (regional_dict num_or_null) (sql_regional_revenue (customers st) (orders st))"
  by (simp add: calculate_kpi_def kpis_def calculate_def run_op_def Let_def result_rows_def
      format_result_data regional_metadata_def)

lemma memory_regional_rows:
  "db_fault st SelectCustomers = None \<Longrightarrow> db_fault st SelectOrders = None \<Longrightarrow>
   regional_revenue_rows \<lparr>customers_df = Some (DataFrame (customers st)),
                           orders_df = Some (DataFrame (orders st))\<rparr> = Inr rows \<Longrightarrow>
   result_rows (fst (calculate_regional_revenue new_engine st now))
     = map (regional_dict num_or_nan) rows"
  by (simp add: calculate_regional_revenue_def ensure_loaded_def new_engine_def load_data_ok
      result_rows_def memory_result_def dict_get_def)

text \<open>
  A region all of whose customers have no order with their mobile number: in every such
  dataset the statement of the table-based engine yields the region's row with
  \<open>total_orders = 0\<close> and \<open>total_revenue\<close> \<open>NULL\<close>, and the memory-based engine (on
  non-empty tables) yields the row with \<open>total_revenue = 0\<close>, no row of it has a null
  revenue, and its rows are in descending order of revenue.
\<close>

lemma left_rows_if:
  "(case ms of [] \<Rightarrow> [(c, None)] | x # xs \<Rightarrow> map (\<lambda>r. (c, Some r)) (x # xs))
     = (if ms = [] then [(c, None)] else map (\<lambda>r. (c, Some r)) ms)"
  by (cases ms) simp_all

lemma sql_left_join_if:
  "sql_left_join cs os =
     concat (map (\<lambda>c. if filter (\<lambda>r. c_mobile c = o_mobile r) os = [] then [(c, None)]
                       else map (\<lambda>r. (c, Some r)) (filter (\<lambda>r. c_mobile c = o_mobile r) os)) cs)"
  by (simp add: sql_left_join_def left_rows_if)

lemma left_join_member:
  "(c, r) \<in> set (sql_left_join cs os) \<Longrightarrow>
   c \<in> set cs \<and> (\<forall>x. r = Some x \<longrightarrow> x \<in> set os \<and> c_mobile c = o_mobile x)"
  by (auto simp: sql_left_join_if split: if_splits)

lemma left_join_covers:
  "c \<in> set cs \<Longrightarrow> \<exists>r. (c, r) \<in> set (sql_left_join cs os)"
proof -
  assume c: "c \<in> set cs"
  show ?thesis
  proof (cases "filter (\<lambda>r. c_mobile c = o_mobile r) os = []")
    case True
    then have "(c, None) \<in> set (sql_left_join cs os)"
      using c by (force simp: sql_left_join_if)
    then show ?thesis by blast
  next
    case False
    then obtain x where "x \<in> set (filter (\<lambda>r. c_mobile c = o_mobile r) os)"
      by (cases "filter (\<lambda>r. c_mobile c = o_mobile r) os") auto
    then have "(c, Some x) \<in> set (sql_left_join cs os)"
      using c False by (force simp: sql_left_join_if)
    then show ?thesis by blast
  qed
qed

lemma non_null_all_None: "(\<forall>v \<in> set vs. v = None) \<Longrightarrow> non_null vs = []"
  by (induction vs) (auto simp: non_null_def List.map_filter_simps)

lemma pd_merge_left_frames: "pd_merge_left (Frame cs) (Frame os) = Inr (sql_left_join cs os)"
proof -
  have e: "filter (\<lambda>r. o_mobile r = c_mobile c) os = filter (\<lambda>r. c_mobile c = o_mobile r) os"
    for c :: customer_row
    by (rule filter_cong) auto
  show ?thesis by (simp add: pd_merge_left_def sql_left_join_if e Let_def)
qed

lemma region_without_orders:
  assumes c: "c \<in> set cs"
      and no: "\<forall>c' \<in> set cs. c_region c' = c_region c \<longrightarrow> (\<forall>r \<in> set os. c_mobile c' \<noteq> o_mobile r)"
  defines "G \<equiv> filter (\<lambda>(c', r). c_region c' = c_region c) (sql_left_join cs os)"
  shows "non_null (map (\<lambda>(c', r). map_option f r) G) = []"
    and "c_region c \<in> set (map (\<lambda>(c', r). c_region c') (sql_left_join cs os))"
proof -
  have "\<forall>v \<in> set (map (\<lambda>(c', r). map_option f r) G). v = None"
  proof
    fix v assume "v \<in> set (map (\<lambda>(c', r). map_option f r) G)"
    then obtain c' r where m: "(c', r) \<in> set (sql_left_join cs os)" "c_region c' = c_region c"
      and v: "v = map_option f r"
      unfolding G_def by auto
    have "r = None"
    proof (cases r)
      case None
      then show ?thesis .
    next
      case (Some x)
      with left_join_member [OF m(1)] have "c' \<in> set cs" "x \<in> set os" "c_mobile c' = o_mobile x"
        by auto
      with no m(2) show ?thesis by blast
    qed
    with v show "v = None" by simp
  qed
  then show "non_null (map (\<lambda>(c', r). map_option f r) G) = []" by (rule non_null_all_None)
  from left_join_covers [OF c] obtain r where "(c, r) \<in> set (sql_left_join cs os)" by blast
  then show "c_region c \<in> set (map (\<lambda>(c', r). c_region c') (sql_left_join cs os))" by force
qed

lemma sql_regional_null_revenue:
  assumes c: "c \<in> set cs"
      and no: "\<forall>c' \<in> set cs. c_region c' = c_region c \<longrightarrow> (\<forall>r \<in> set os. c_mobile c' \<noteq> o_mobile r)"
  shows "\<exists>row \<in> set (sql_regional_revenue cs os).
           gr_region row = c_region c \<and> gr_orders row = 0 \<and> gr_revenue row = None"
proof -
  let ?LJ = "sql_left_join cs os"
  let ?G = "filter (\<lambda>(c', r). c_region c' = c_region c) ?LJ"
  let ?row = "\<lparr>gr_region = c_region c,
               gr_customers = sql_count_distinct (map (\<lambda>(c, r). Some (c_id c)) ?G),
               gr_orders = sql_count (map (\<lambda>(c, r). map_option o_id r) ?G),
               gr_revenue = sql_sum (map (\<lambda>(c, r). map_option o_amount r) ?G),
               gr_avg = sql_avg (map (\<lambda>(c, r). map_option o_amount r) ?G)\<rparr>"
  have k: "c_region c \<in> set (remdups (map (\<lambda>(c', r). c_region c') ?LJ))"
    using region_without_orders(2) [OF c no] by simp
  have "?row \<in> set (sql_regional_revenue cs os)"
    unfolding sql_regional_revenue_def Let_def sql_group_by_def set_sort set_map
    using k by (force simp: split_def)
  moreover have "gr_orders ?row = 0"
    using region_without_orders(1) [OF c no, of o_id] by (simp add: sql_count_def)
  moreover have "gr_revenue ?row = None"
    using region_without_orders(1) [OF c no, of o_amount] by (simp add: sql_sum_def)
  ultimately show ?thesis by (intro bexI [of _ ?row]) simp_all
qed

lemma memory_regional_zero_revenue:
  assumes c: "c \<in> set cs" and os: "os \<noteq> []"
      and no: "\<forall>c' \<in> set cs. c_region c' = c_region c \<longrightarrow> (\<forall>r \<in> set os. c_mobile c' \<noteq> o_mobile r)"
  shows "\<exists>rows. regional_revenue_rows \<lparr>customers_df = Some (DataFrame cs),
                                        orders_df = Some (DataFrame os)\<rparr> = Inr rows
           \<and> (\<exists>row \<in> set rows. gr_region row = c_region c \<and> gr_orders row = 0
                                \<and> gr_revenue row = Some 0)
           \<and> (\<forall>row \<in> set rows. gr_revenue row \<noteq> None)
           \<and> sorted (map (\<lambda>row. desc_key (gr_revenue row)) rows)"
proof -
  let ?LJ = "sql_left_join cs os"
  let ?G = "filter (\<lambda>(c', r). c_region c' = c_region c) ?LJ"
  let ?F = "\<lambda>(reg, g). \<lparr>gr_region = reg,
               gr_customers = pd_nunique (map (\<lambda>(c, r). Some (c_id c)) g),
               gr_orders = pd_count (map (\<lambda>(c, r). map_option o_id r) g),
               gr_revenue = fillna0 (Some (pd_sum (map (\<lambda>(c, r). map_option o_amount r) g))),
               gr_avg = fillna0 (pd_mean (map (\<lambda>(c, r). map_option o_amount r) g))\<rparr>"
  let ?rows = "sort_key (\<lambda>row. desc_key (gr_revenue row))
                 (map ?F (pd_groupby (\<lambda>(c, r). c_region c) ?LJ))"
  have cs: "cs \<noteq> []" using c by auto
  have R: "regional_revenue_rows \<lparr>customers_df = Some (DataFrame cs),
                                  orders_df = Some (DataFrame os)\<rparr> = Inr ?rows"
    using cs os by (simp add: regional_revenue_rows_def DataFrame_def pd_merge_left_frames Let_def)
  have k: "c_region c \<in> set (sort (remdups (map (\<lambda>(c', r). c_region c') ?LJ)))"
    using region_without_orders(2) [OF c no] by simp
  have "?F (c_region c, ?G) \<in> set ?rows"
    unfolding pd_groupby_def set_sort set_map using k by (force simp: split_def)
  moreover have "gr_orders (?F (c_region c, ?G)) = 0"
    using region_without_orders(1) [OF c no, of o_id] by (simp add: pd_count_def)
  moreover have "gr_revenue (?F (c_region c, ?G)) = Some 0"
    using region_without_orders(1) [OF c no, of o_amount] by (simp add: pd_sum_def fillna0_def)
  ultimately have a: "\<exists>row \<in> set ?rows. gr_region row = c_region c \<and> gr_orders row = 0
                                \<and> gr_revenue row = Some 0"
    by (intro bexI [of _ "?F (c_region c, ?G)"]) simp_all
  have b: "\<forall>row \<in> set ?rows. gr_revenue row \<noteq> None"
    by (auto simp: fillna0_def)
  have s: "sorted (map (\<lambda>row. desc_key (gr_revenue row)) ?rows)"
    by simp
  show ?thesis using R a b s by blast
qed

text \<open>
  C2, at a failing input. In the example store the region South has one customer and no
  order with that customer's mobile number. Both engines emit a row for South and order
  the rows by total revenue descending; the memory-based engine fills the row's
  \<open>total_revenue\<close> and \<open>avg_order_value\<close> with 0, while the statement of the table-based
  engine has no \<open>COALESCE\<close>: \<open>SUM\<close> over no order is \<open>NULL\<close>, and the row carries
  \<open>None\<close> in both fields.
\<close>

theorem regional_revenue_null_in_table_engine:
  "result_rows (fst (calculate_kpi ex_kpi_store ''regional_revenue'' no_kwargs (date_only 2024 3 15)))
     = [VDict [(''region'', VStr ''North''), (''customer_count'', VInt 2), (''total_orders'', VInt 3),
               (''total_revenue'', VNum 425), (''avg_order_value'', VNum (425 / 3))],
        VDict [(''region'', VStr ''South''), (''customer_count'', VInt 1), (''total_orders'', VInt 0),
               (''total_revenue'', VNone), (''avg_order_value'', VNone)]]
   \<and> result_rows (fst (calculate_regional_revenue new_engine ex_kpi_store (date_only 2024 3 15)))
     = [VDict [(''region'', VStr ''North''), (''customer_count'', VInt 2), (''total_orders'', VInt 3),
               (''total_revenue'', VNum 425), (''avg_order_value'', VNum (425 / 3))],
        VDict [(''region'', VStr ''South''), (''customer_count'', VInt 1), (''total_orders'', VInt 0),
               (''total_revenue'', VNum 0), (''avg_order_value'', VNum 0)]]"
proof -
  have f: "db_fault ex_kpi_store QueryRegional = None" "db_fault ex_kpi_store SelectCustomers = None"
    "db_fault ex_kpi_store SelectOrders = None"
    by (simp_all add: ex_kpi_store_def)
  have s: "sql_regional_revenue (customers ex_kpi_store) (orders ex_kpi_store)
             = [\<lparr>gr_region = ''North'', gr_customers = 2, gr_orders = 3,
                 gr_revenue = Some 425, gr_avg = Some (425 / 3)\<rparr>,
                \<lparr>gr_region = ''South'', gr_customers = 1, gr_orders = 0,
                 gr_revenue = None, gr_avg = None\<rparr>]"
    by code_simp
  have m: "regional_revenue_rows \<lparr>customers_df = Some (DataFrame (customers ex_kpi_store)),
                                   orders_df = Some (DataFrame (orders ex_kpi_store))\<rparr>
             = Inr [\<lparr>gr_region = ''North'', gr_customers = 2, gr_orders = 3,
                     gr_revenue = Some 425, gr_avg = Some (425 / 3)\<rparr>,
                    \<lparr>gr_region = ''South'', gr_customers = 1, gr_orders = 0,
                     gr_revenue = Some 0, gr_avg = Some 0\<rparr>]"
    by code_simp
  show ?thesis
    unfolding table_regional_rows [OF f(1)] memory_regional_rows [OF f(2,3) m] s
    by (simp add: regional_dict_def num_or_null_def num_or_nan_def)
qed

section \<open>The envelopes of the two engines\<close>

















end
